theory Spec2Isabelle
  imports Complex_Main "HOL-Library.Multiset" "HOL-Library.Char_ord"
begin

section \<open>Common vocabulary\<close>

text \<open>
  Python exceptions that the modelled code can raise are values of \<open>exn\<close>; a fallible
  function returns \<open>exn + 'a\<close>, with \<open>Inl\<close> for the exception. Floating point numbers
  are modelled by real numbers.
\<close>

datatype exn = ValueError | KeyError | IndexError | FileNotFoundError | ZeroDivisionError

section \<open>training/trainer.py: EarlyStopping\<close>

text \<open>
  The attributes of \<^verbatim>\<open>EarlyStopping\<close>. \<open>best_value = None\<close> is Python's \<^verbatim>\<open>None\<close>.
\<close>

record early_stopping =
  patience :: int
  min_delta :: real
  mode :: string
  counter :: int
  best_value :: "real option"
  should_stop :: bool

text \<open>
  \<^verbatim>\<open>__init__(self, patience=7, min_delta=0.001, mode='max')\<close>: an argument that the caller
  does not pass is \<open>None\<close> here and takes the default of the signature.
\<close>

definition EarlyStopping_init :: "int option \<Rightarrow> real option \<Rightarrow> string option \<Rightarrow> early_stopping" where
  "EarlyStopping_init p d m =
     \<lparr>patience = (case p of None \<Rightarrow> 7 | Some x \<Rightarrow> x),
      min_delta = (case d of None \<Rightarrow> 0.001 | Some x \<Rightarrow> x),
      mode = (case m of None \<Rightarrow> ''max'' | Some x \<Rightarrow> x),
      counter = 0,
      best_value = None,
      should_stop = False\<rparr>"

text \<open>
  \<^verbatim>\<open>__call__(self, value)\<close>: the returned pair is the returned flag and the object after the
  call.
\<close>

definition EarlyStopping_call :: "early_stopping \<Rightarrow> real \<Rightarrow> bool \<times> early_stopping" where
  "EarlyStopping_call self v =
     (case best_value self of
        None \<Rightarrow> (False, self\<lparr>best_value := Some v\<rparr>)
      | Some b \<Rightarrow>
          (let improved = (if mode self = ''max'' then v > b + min_delta self
                           else v < b - min_delta self)
           in if improved
              then (let s = self\<lparr>best_value := Some v, counter := 0\<rparr>
                    in (should_stop s, s))
              else (let s1 = self\<lparr>counter := counter self + 1\<rparr>;
                        s2 = (if counter s1 \<ge> patience s1 then s1\<lparr>should_stop := True\<rparr> else s1)
                    in (should_stop s2, s2))))"

text \<open>Feeding a sequence of values to one object: the flags returned, call by call.\<close>

fun EarlyStopping_calls :: "early_stopping \<Rightarrow> real list \<Rightarrow> bool list" where
  "EarlyStopping_calls self [] = []"
| "EarlyStopping_calls self (v # vs) =
     (case EarlyStopping_call self v of (r, self') \<Rightarrow> r # EarlyStopping_calls self' vs)"

section \<open>training/trainer.py: Trainer\<close>

text \<open>
  The model, the optimiser and the data loaders are opaque: what one epoch of training and
  validation produces is given from outside, as the metrics that \<^verbatim>\<open>_validate\<close> returns
  in that epoch. Of the metrics dictionary the loop reads three keys.
\<close>

record val_metrics =
  balanced_accuracy :: real
  mel_sensitivity :: real
  f1_macro :: real

text \<open>
  The dictionary that \<^verbatim>\<open>_save_checkpoint\<close> passes to \<^verbatim>\<open>torch.save\<close>, without the opaque
  model and optimiser states and the constant model name.
\<close>

record checkpoint =
  ck_epoch :: nat
  ck_val_balanced_acc :: real
  ck_val_mel_sensitivity :: real
  ck_metrics :: val_metrics

datatype ckpt_file = Latest | Best

text \<open>
  The trainer: the fields that the loop reads or writes. \<open>saves\<close> is the sequence of
  \<^verbatim>\<open>torch.save\<close> calls so far, oldest first, each with the file it (over)writes. The
  history keeps the two validation series; the loss, accuracy and learning-rate series come
  from the opaque model and are not kept.
\<close>

record trainer =
  num_epochs :: int
  early_stopping_of :: early_stopping
  best_val_balanced_acc :: real
  history_val_balanced_acc :: "real list"
  history_val_mel_sensitivity :: "real list"
  saves :: "(ckpt_file \<times> checkpoint) list"

text \<open>
  \<^verbatim>\<open>Trainer.__init__\<close> reads \<^verbatim>\<open>config.training.num_epochs\<close> and
  \<^verbatim>\<open>config.training.early_stopping_patience\<close>, and constructs
  \<^verbatim>\<open>EarlyStopping(patience=..., mode='max')\<close>: \<^verbatim>\<open>min_delta\<close> is not passed.
\<close>

definition Trainer_init :: "int \<Rightarrow> int \<Rightarrow> trainer" where
  "Trainer_init cfg_num_epochs cfg_early_stopping_patience =
     \<lparr>num_epochs = cfg_num_epochs,
      early_stopping_of = EarlyStopping_init (Some cfg_early_stopping_patience) None (Some ''max''),
      best_val_balanced_acc = 0.0,
      history_val_balanced_acc = [],
      history_val_mel_sensitivity = [],
      saves = []\<rparr>"

definition save_checkpoint :: "trainer \<Rightarrow> nat \<Rightarrow> val_metrics \<Rightarrow> bool \<Rightarrow> trainer" where
  "save_checkpoint self epoch metrics is_best =
     (let ck = \<lparr>ck_epoch = epoch,
                 ck_val_balanced_acc = balanced_accuracy metrics,
                 ck_val_mel_sensitivity = mel_sensitivity metrics,
                 ck_metrics = metrics\<rparr>;
          s1 = self\<lparr>saves := saves self @ [(Latest, ck)]\<rparr>
      in if is_best then s1\<lparr>saves := saves s1 @ [(Best, ck)]\<rparr> else s1)"

text \<open>
  The body of the loop of \<^verbatim>\<open>train\<close> for one epoch, from the history update to the early
  stopping check; the flag returned says whether the loop breaks.
\<close>

definition train_epoch :: "trainer \<Rightarrow> nat \<Rightarrow> val_metrics \<Rightarrow> bool \<times> trainer" where
  "train_epoch self epoch metrics =
     (let s1 = self\<lparr>history_val_balanced_acc :=
                      history_val_balanced_acc self @ [balanced_accuracy metrics],
                    history_val_mel_sensitivity :=
                      history_val_mel_sensitivity self @ [mel_sensitivity metrics]\<rparr>;
          is_best = (balanced_accuracy metrics > best_val_balanced_acc s1);
          s2 = (if is_best then s1\<lparr>best_val_balanced_acc := balanced_accuracy metrics\<rparr> else s1);
          s3 = save_checkpoint s2 epoch metrics is_best
      in case EarlyStopping_call (early_stopping_of s3) (balanced_accuracy metrics) of
           (stop, es) \<Rightarrow> (stop, s3\<lparr>early_stopping_of := es\<rparr>))"

text \<open>\<^verbatim>\<open>for epoch in range(self.num_epochs)\<close>, with the \<^verbatim>\<open>break\<close>.\<close>

fun train_loop :: "(nat \<Rightarrow> val_metrics) \<Rightarrow> nat list \<Rightarrow> trainer \<Rightarrow> trainer" where
  "train_loop validate [] self = self"
| "train_loop validate (epoch # epochs) self =
     (case train_epoch self epoch (validate epoch) of
        (stop, self') \<Rightarrow> if stop then self' else train_loop validate epochs self')"

definition train :: "(nat \<Rightarrow> val_metrics) \<Rightarrow> trainer \<Rightarrow> trainer" where
  "train validate self = train_loop validate [0 ..< nat (num_epochs self)] self"

text \<open>
  The \<^verbatim>\<open>is_best\<close> flags of a run, read from the sequence of saves: every epoch writes the
  latest file, and the best file right after it when the flag is set.
\<close>

fun is_best_flags :: "(ckpt_file \<times> checkpoint) list \<Rightarrow> bool list" where
  "is_best_flags [] = []"
| "is_best_flags ((Latest, c) # (Best, c') # r) = True # is_best_flags r"
| "is_best_flags ((Latest, c) # r) = False # is_best_flags r"
| "is_best_flags ((Best, c) # r) = is_best_flags r"

text \<open>
  The flags as the specification words them: a value is marked iff it is strictly greater
  than the best value seen so far, which is \<open>b\<close> at the start.
\<close>

fun strictly_better_flags :: "real \<Rightarrow> real list \<Rightarrow> bool list" where
  "strictly_better_flags b [] = []"
| "strictly_better_flags b (v # vs) = (v > b) # strictly_better_flags (max b v) vs"

text \<open>The validation series of the example: 0.60, 0.65, 0.65, 0.70.\<close>

definition example_validate :: "nat \<Rightarrow> val_metrics" where
  "example_validate k =
     \<lparr>balanced_accuracy = [0.60, 0.65, 0.65, 0.70] ! k, mel_sensitivity = 0, f1_macro = 0\<rparr>"

text \<open>
  A run of three epochs whose balanced accuracies are 0.5, 0.5005 and 0.5011, and the
  trainer after the first two of them.
\<close>

definition small_steps_validate :: "nat \<Rightarrow> val_metrics" where
  "small_steps_validate k =
     \<lparr>balanced_accuracy = [0.5, 0.5005, 0.5011] ! k, mel_sensitivity = 0, f1_macro = 0\<rparr>"

definition small_steps_state :: trainer where
  "small_steps_state = train_loop small_steps_validate [0, 1] (Trainer_init 3 7)"

section \<open>preprocessing/data_merger.py\<close>

text \<open>
  A row of the merged registry (\<^verbatim>\<open>master_metadata.csv\<close>): the columns \<^verbatim>\<open>image_id\<close>,
  \<^verbatim>\<open>dx\<close> and \<^verbatim>\<open>source\<close>.
\<close>

record meta_row =
  image_id :: string
  dx :: string
  source :: string

text \<open>A row of \<^verbatim>\<open>HAM10000_metadata.csv\<close>, restricted to \<^verbatim>\<open>['image_id', 'dx']\<close>.\<close>

record ham_row =
  ham_image_id :: string
  ham_dx :: string

text \<open>
  The ISIC 2019 ground truth: the names of its columns, and its rows; a row has the image
  name and one number per column name (the value of a name that is not a column is never
  read).
\<close>

record isic_row =
  isic_image :: string
  isic_value :: "string \<Rightarrow> real"

record isic_frame =
  isic_columns :: "string list"
  isic_rows :: "isic_row list"

record labelled_row = isic_row +
  isic_dx :: string

definition label_columns :: "string list" where
  "label_columns = [''MEL'', ''NV'', ''BCC'', ''AK'', ''BKL'', ''DF'', ''VASC'', ''SCC'']"

text \<open>
  \<^verbatim>\<open>DataFrame.idxmax(axis=1)\<close> for one row: the first of the columns that hold the
  maximum of the row.
\<close>

fun idxmax :: "string list \<Rightarrow> (string \<Rightarrow> real) \<Rightarrow> string" where
  "idxmax [] f = []"
| "idxmax [c] f = c"
| "idxmax (c # cs) f = (let d = idxmax cs f in if f c \<ge> f d then c else d)"

text \<open>\<^verbatim>\<open>str.lower()\<close>, on ASCII.\<close>

definition char_lower :: "char \<Rightarrow> char" where
  "char_lower c =
     (if CHR ''A'' \<le> c \<and> c \<le> CHR ''Z'' then char_of (of_char c + (32::nat)) else c)"

definition str_lower :: "string \<Rightarrow> string" where
  "str_lower s = map char_lower s"

text \<open>\<^verbatim>\<open>replace({'ak': 'akiec'})\<close> on one value.\<close>

definition replace_ak :: "string \<Rightarrow> string" where
  "replace_ak s = (if s = ''ak'' then ''akiec'' else s)"

text \<open>
  \<^verbatim>\<open>harmonize_isic_labels\<close>: the rows of the returned frame, each with its new \<^verbatim>\<open>dx\<close>
  value.
\<close>

definition harmonize_isic_labels :: "isic_frame \<Rightarrow> exn + labelled_row list" where
  "harmonize_isic_labels df =
     (if \<not> set label_columns \<subseteq> set (isic_columns df) then Inl ValueError
      else Inr (map (\<lambda>r. \<lparr>isic_image = isic_image r, isic_value = isic_value r,
                           isic_dx = replace_ak (str_lower (idxmax label_columns (isic_value r)))\<rparr>)
                    (isic_rows df)))"

definition remove_duplicates :: "meta_row list \<Rightarrow> meta_row list \<Rightarrow> meta_row list" where
  "remove_duplicates ham_df isic_df =
     (let ham_image_ids = set (map image_id ham_df)
      in filter (\<lambda>r. image_id r \<notin> ham_image_ids) isic_df)"

text \<open>\<^verbatim>\<open>Series.value_counts().to_dict()\<close>.\<close>

definition value_counts :: "string list \<Rightarrow> (string \<rightharpoonup> nat)" where
  "value_counts xs = (\<lambda>c. if c \<in> set xs then Some (count_list xs c) else None)"

record merge_stats =
  total_images :: nat
  ham10000_count :: nat
  isic2019_count :: nat
  class_distribution :: "string \<rightharpoonup> nat"
  source_distribution :: "string \<rightharpoonup> nat"

text \<open>
  \<^verbatim>\<open>merge_datasets\<close>. The two arguments are the contents of the two metadata files,
  \<open>None\<close> for a file that does not exist. The result is the returned pair; the merged
  frame is also what is written to \<^verbatim>\<open>master_metadata.csv\<close>. Python's \<^verbatim>\<open>max\<close> of the
  class counts raises \<^verbatim>\<open>ValueError\<close> on an empty merged frame.
\<close>

definition merge_datasets ::
  "ham_row list option \<Rightarrow> isic_frame option \<Rightarrow> exn + (meta_row list \<times> merge_stats)" where
  "merge_datasets ham_csv isic_csv =
     (case ham_csv of
        None \<Rightarrow> Inl FileNotFoundError
      | Some ham \<Rightarrow>
          (let ham_df = map (\<lambda>r. \<lparr>image_id = ham_image_id r, dx = ham_dx r,
                                  source = ''ham10000''\<rparr>) ham
           in case isic_csv of
                None \<Rightarrow> Inl FileNotFoundError
              | Some isic \<Rightarrow>
                  (case harmonize_isic_labels isic of
                     Inl e \<Rightarrow> Inl e
                   | Inr labelled \<Rightarrow>
                       (let isic_df = map (\<lambda>r. \<lparr>image_id = isic_image r, dx = isic_dx r,
                                                source = ''isic2019''\<rparr>) labelled;
                            isic_df = remove_duplicates ham_df isic_df;
                            master_df = ham_df @ isic_df;
                            stats = \<lparr>total_images = length master_df,
                                     ham10000_count = length ham_df,
                                     isic2019_count = length isic_df,
                                     class_distribution = value_counts (map dx master_df),
                                     source_distribution = value_counts (map source master_df)\<rparr>
                        in if master_df = [] then Inl ValueError
                           else Inr (master_df, stats)))))"

text \<open>An ISIC frame of one row in which no indicator is set.\<close>

definition unlabelled_frame :: isic_frame where
  "unlabelled_frame =
     \<lparr>isic_columns = ''image'' # label_columns @ [''UNK''],
      isic_rows = [\<lparr>isic_image = ''ISIC_0000000'', isic_value = (\<lambda>c. 0)\<rparr>]\<rparr>"

text \<open>Two sources that share one image id, under different labels.\<close>

definition overlap_ham :: "ham_row list" where
  "overlap_ham = [\<lparr>ham_image_id = ''ISIC_0024306'', ham_dx = ''nv''\<rparr>,
                  \<lparr>ham_image_id = ''ISIC_0024307'', ham_dx = ''bkl''\<rparr>]"

definition mel_indicator :: "string \<Rightarrow> real" where
  "mel_indicator c = (if c = ''MEL'' then 1 else 0)"

definition overlap_isic :: isic_frame where
  "overlap_isic =
     \<lparr>isic_columns = ''image'' # label_columns @ [''UNK''],
      isic_rows = [\<lparr>isic_image = ''ISIC_0024306'', isic_value = mel_indicator\<rparr>,
                   \<lparr>isic_image = ''ISIC_0000001'', isic_value = mel_indicator\<rparr>]\<rparr>"

section \<open>preprocessing/data_splitter.py\<close>

text \<open>
  The attributes of \<^verbatim>\<open>StratifiedDataSplitter\<close> that \<^verbatim>\<open>split_data\<close> reads. The metadata
  file is read into the frame that \<^verbatim>\<open>split_data\<close> gets as its argument here.
\<close>

record splitter =
  train_ratio :: real
  val_ratio :: real
  test_ratio :: real
  random_state :: int

text \<open>\<^verbatim>\<open>numpy.isclose(a, b)\<close> with its default tolerances \<open>rtol = 1e-05\<close>, \<open>atol = 1e-08\<close>.\<close>

definition isclose :: "real \<Rightarrow> real \<Rightarrow> bool" where
  "isclose a b \<longleftrightarrow> \<bar>a - b\<bar> \<le> 1 / 10 ^ 8 + 1 / 10 ^ 5 * \<bar>b\<bar>"

text \<open>
  \<^verbatim>\<open>__init__\<close>; the first argument says whether the metadata path exists. The defaults of
  the signature are 0.70, 0.15, 0.15 and 42.
\<close>

definition StratifiedDataSplitter_init ::
  "bool \<Rightarrow> real \<Rightarrow> real \<Rightarrow> real \<Rightarrow> int \<Rightarrow> exn + splitter" where
  "StratifiedDataSplitter_init metadata_exists tr va te rs =
     (if \<not> isclose (tr + va + te) 1.0 then Inl ValueError
      else if \<not> metadata_exists then Inl FileNotFoundError
      else Inr \<lparr>train_ratio = tr, val_ratio = va, test_ratio = te, random_state = rs\<rparr>)"

datatype level = INFO | WARNING

text \<open>
  \<^verbatim>\<open>sklearn.model_selection.train_test_split(df, test_size=..., stratify=df['dx'],
  random_state=...)\<close> is a function of the library, not of this repository: \<^verbatim>\<open>split_data\<close>
  takes it as a parameter, with the arguments \<open>test_size\<close>, \<open>random_state\<close> and the frame.
\<close>

type_synonym train_test_split_fn =
  "real \<Rightarrow> int \<Rightarrow> meta_row list \<Rightarrow> exn + (meta_row list \<times> meta_row list)"

text \<open>
  \<^verbatim>\<open>split_data\<close>. The first component of the result is the level of every record logged,
  in order: all the calls are \<^verbatim>\<open>logger.info\<close>, one of them per class of the frame. The two
  percentages logged after the first split divide by \<^verbatim>\<open>len(df)\<close>. An exception of
  \<^verbatim>\<open>train_test_split\<close> is not caught.
\<close>

definition split_data ::
  "train_test_split_fn \<Rightarrow> splitter \<Rightarrow> meta_row list
     \<Rightarrow> level list \<times> (exn + (meta_row list \<times> meta_row list \<times> meta_row list))" where
  "split_data train_test_split self df =
     (let log1 = replicate 6 INFO @ map (\<lambda>cls. INFO) (remdups (map dx df)) @ [INFO];
          temp_ratio = val_ratio self + test_ratio self
      in case train_test_split temp_ratio (random_state self) df of
           Inl e \<Rightarrow> (log1, Inl e)
         | Inr (train_df, temp_df) \<Rightarrow>
             if length df = 0 then (log1, Inl ZeroDivisionError)
             else (let log2 = log1 @ [INFO, INFO]
                   in case train_test_split 0.5 (random_state self) temp_df of
                        Inl e \<Rightarrow> (log2, Inl e)
                      | Inr (val_df, test_df) \<Rightarrow>
                          (log2 @ [INFO, INFO], Inr (train_df, val_df, test_df))))"

subsection \<open>A reference model of the library's stratified split\<close>

text \<open>
  What the library documents and does for a float \<open>test_size\<close> with \<open>stratify\<close>: the test
  part has \<open>ceil(test_size * n)\<close> rows and the train part the others; \<^verbatim>\<open>ValueError\<close> is
  raised when \<open>test_size\<close> is outside (0, 1), when the train part would be empty, when a
  class has fewer than 2 members, and when a part would have fewer rows than there are
  classes; every class is divided in proportion, by largest remainders. The library shuffles
  with a generator seeded by \<open>random_state\<close>; the model keeps the rows in their order and
  gives a remainder tie to the earlier class, so it is one of the outcomes that the library
  can produce up to the order of the rows.
\<close>

definition class_count :: "string \<Rightarrow> meta_row list \<Rightarrow> nat" where
  "class_count c df = length (filter (\<lambda>r. dx r = c) df)"

definition approximate_mode :: "nat list \<Rightarrow> nat \<Rightarrow> nat list" where
  "approximate_mode class_counts n_draws =
     (let total = sum_list class_counts;
          continuous = map (\<lambda>c. real c / real total * real n_draws) class_counts;
          floored = map (\<lambda>x. nat \<lfloor>x\<rfloor>) continuous;
          need_to_add = n_draws - sum_list floored;
          remainder = map (\<lambda>x. x - real_of_int \<lfloor>x\<rfloor>) continuous;
          inds = take need_to_add
                   (sort_key (\<lambda>i. - (remainder ! i)) [0 ..< length class_counts])
      in map (\<lambda>i. floored ! i + (if i \<in> set inds then 1 else 0)) [0 ..< length class_counts])"

text \<open>
  The rows in order: a row goes to the first part while its class has not filled its quota,
  and to the second part afterwards.
\<close>

fun stratified_assign ::
  "(string \<Rightarrow> nat) \<Rightarrow> (string \<Rightarrow> nat) \<Rightarrow> meta_row list \<Rightarrow> meta_row list \<times> meta_row list" where
  "stratified_assign quota seen [] = ([], [])"
| "stratified_assign quota seen (r # rs) =
     (case stratified_assign quota (seen (dx r := seen (dx r) + 1)) rs of
        (a, b) \<Rightarrow> if seen (dx r) < quota (dx r) then (r # a, b) else (a, r # b))"

definition sk_train_test_split :: train_test_split_fn where
  "sk_train_test_split test_size rs df =
     (let n_samples = length df
      in if test_size \<le> 0 \<or> test_size \<ge> 1 then Inl ValueError
         else (let n_test = nat \<lceil>test_size * real n_samples\<rceil>;
                   n_train = n_samples - n_test
               in if n_train = 0 then Inl ValueError
                  else (let classes = remdups (map dx df);
                            class_counts = map (\<lambda>c. class_count c df) classes
                        in if list_ex (\<lambda>k. k < 2) class_counts then Inl ValueError
                           else if n_train < length classes then Inl ValueError
                           else if n_test < length classes then Inl ValueError
                           else (let n_i = approximate_mode class_counts n_train;
                                     quota = (\<lambda>c. case map_of (zip classes n_i) c of
                                                      None \<Rightarrow> 0 | Some k \<Rightarrow> k)
                                 in Inr (stratified_assign quota (\<lambda>c. 0) df)))))"

text \<open>A registry of two classes with eight rows each, and one with a class of one row.\<close>

definition example_registry :: "meta_row list" where
  "example_registry =
     [\<lparr>image_id = ''ISIC_0000'', dx = ''nv'', source = ''ham10000''\<rparr>,
      \<lparr>image_id = ''ISIC_0001'', dx = ''nv'', source = ''ham10000''\<rparr>,
      \<lparr>image_id = ''ISIC_0002'', dx = ''nv'', source = ''ham10000''\<rparr>,
      \<lparr>image_id = ''ISIC_0003'', dx = ''nv'', source = ''ham10000''\<rparr>,
      \<lparr>image_id = ''ISIC_0004'', dx = ''nv'', source = ''ham10000''\<rparr>,
      \<lparr>image_id = ''ISIC_0005'', dx = ''nv'', source = ''ham10000''\<rparr>,
      \<lparr>image_id = ''ISIC_0006'', dx = ''nv'', source = ''ham10000''\<rparr>,
      \<lparr>image_id = ''ISIC_0007'', dx = ''nv'', source = ''ham10000''\<rparr>,
      \<lparr>image_id = ''ISIC_0008'', dx = ''mel'', source = ''isic2019''\<rparr>,
      \<lparr>image_id = ''ISIC_0009'', dx = ''mel'', source = ''isic2019''\<rparr>,
      \<lparr>image_id = ''ISIC_0010'', dx = ''mel'', source = ''isic2019''\<rparr>,
      \<lparr>image_id = ''ISIC_0011'', dx = ''mel'', source = ''isic2019''\<rparr>,
      \<lparr>image_id = ''ISIC_0012'', dx = ''mel'', source = ''isic2019''\<rparr>,
      \<lparr>image_id = ''ISIC_0013'', dx = ''mel'', source = ''isic2019''\<rparr>,
      \<lparr>image_id = ''ISIC_0014'', dx = ''mel'', source = ''isic2019''\<rparr>,
      \<lparr>image_id = ''ISIC_0015'', dx = ''mel'', source = ''isic2019''\<rparr>]"

definition rare_class_registry :: "meta_row list" where
  "rare_class_registry =
     \<lparr>image_id = ''ISIC_0099'', dx = ''df'', source = ''isic2019''\<rparr> # example_registry"

definition split_sizes ::
  "exn + (meta_row list \<times> meta_row list \<times> meta_row list) \<Rightarrow> exn + (nat \<times> nat \<times> nat)" where
  "split_sizes r =
     (case r of Inl e \<Rightarrow> Inl e | Inr (a, b, c) \<Rightarrow> Inr (length a, length b, length c))"

text \<open>The splitter with the default arguments.\<close>

definition default_splitter :: splitter where
  "default_splitter = \<lparr>train_ratio = 0.70, val_ratio = 0.15, test_ratio = 0.15, random_state = 42\<rparr>"

section \<open>datasets/dataloader.py\<close>

text \<open>
  \<^verbatim>\<open>weights[idx] = v\<close> on a numpy array: a negative index counts from the end, an index
  outside the array raises \<^verbatim>\<open>IndexError\<close>.
\<close>

definition np_setitem :: "real list \<Rightarrow> int \<Rightarrow> real \<Rightarrow> exn + real list" where
  "np_setitem ws idx v =
     (let n = int (length ws); j = (if idx < 0 then n + idx else idx)
      in if 0 \<le> j \<and> j < n then Inr (ws[nat j := v]) else Inl IndexError)"

text \<open>The message of the \<^verbatim>\<open>logger.warning\<close> call.\<close>

definition zero_samples_warning :: "string \<Rightarrow> string" where
  "zero_samples_warning diagnosis =
     ''Class '' @ [CHR 0x27] @ diagnosis @ [CHR 0x27] @ '' has 0 samples!''"

text \<open>
  The weight of a class with \<open>cnt\<close> samples, \<open>cnt\<close> being the \<^verbatim>\<open>count\<close> of the source.
  Python raises \<^verbatim>\<open>ZeroDivisionError\<close> on a zero divisor of \<^verbatim>\<open>/\<close>; for the second formula,
  where numpy would return \<^verbatim>\<open>inf\<close> with a warning, the model returns the same error, so that a
  division by zero shows in the result.
\<close>

definition class_weight :: "string \<Rightarrow> nat \<Rightarrow> nat \<Rightarrow> nat \<Rightarrow> exn + real" where
  "class_weight method total_samples num_classes cnt =
     (if method = ''inverse_frequency''
      then (if num_classes * cnt = 0 then Inl ZeroDivisionError
            else Inr (real total_samples / real (num_classes * cnt)))
      else if method = ''effective_number''
      then (let beta = 0.9999; effective_num = 1.0 - beta ^ cnt
            in if effective_num = 0 then Inl ZeroDivisionError
               else Inr ((1.0 - beta) / effective_num))
      else Inl ValueError)"

text \<open>
  The loop over \<^verbatim>\<open>class_to_idx.items()\<close>, in the order of the dictionary; the state is the
  messages logged as warnings so far and the array of weights.
\<close>

fun weights_loop ::
  "string \<Rightarrow> nat \<Rightarrow> nat \<Rightarrow> (string \<rightharpoonup> nat) \<Rightarrow> (string \<times> int) list
     \<Rightarrow> string list \<Rightarrow> real list \<Rightarrow> string list \<times> (exn + real list)" where
  "weights_loop method total_samples num_classes class_counts [] warnings weights =
     (warnings, Inr weights)"
| "weights_loop method total_samples num_classes class_counts ((diagnosis, idx) # items)
     warnings weights =
     (let cnt = (case class_counts diagnosis of None \<Rightarrow> 0 | Some k \<Rightarrow> k)
      in if cnt = 0
         then (let warnings' = warnings @ [zero_samples_warning diagnosis]
               in case np_setitem weights idx 1.0 of
                    Inl e \<Rightarrow> (warnings', Inl e)
                  | Inr weights' \<Rightarrow>
                      weights_loop method total_samples num_classes class_counts items
                        warnings' weights')
         else (case class_weight method total_samples num_classes cnt of
                 Inl e \<Rightarrow> (warnings, Inl e)
               | Inr w \<Rightarrow>
                   (case np_setitem weights idx w of
                      Inl e \<Rightarrow> (warnings, Inl e)
                    | Inr weights' \<Rightarrow>
                        weights_loop method total_samples num_classes class_counts items
                          warnings weights')))"

text \<open>
  \<^verbatim>\<open>compute_class_weights\<close>, on the frame read from \<^verbatim>\<open>csv_path\<close>: the warnings logged
  and the weights returned. The dictionary \<^verbatim>\<open>class_to_idx\<close> is the list of its items.
\<close>

definition compute_class_weights ::
  "meta_row list \<Rightarrow> (string \<times> int) list \<Rightarrow> string \<Rightarrow> string list \<times> (exn + real list)" where
  "compute_class_weights df class_to_idx method =
     (let total_samples = length df;
          num_classes = length class_to_idx;
          class_counts = value_counts (map dx df);
          weights = replicate num_classes 0
      in weights_loop method total_samples num_classes class_counts class_to_idx [] weights)"

text \<open>An index mapping with a class, \<open>df\<close>, that the example registry does not have.\<close>

definition example_class_to_idx :: "(string \<times> int) list" where
  "example_class_to_idx = [(''mel'', 0), (''nv'', 1), (''df'', 2)]"

section \<open>training/metrics.py\<close>

text \<open>
  A metric value is a float, which numpy makes \<^verbatim>\<open>nan\<close> for the mean of an empty array.
\<close>

datatype pyfloat = Fin real | NaN

text \<open>
  The dictionary returned by \<^verbatim>\<open>classification_report(..., output_dict=True)\<close>, and the
  dictionary of metrics that \<^verbatim>\<open>compute\<close> builds.
\<close>

type_synonym report = "string \<rightharpoonup> (string \<rightharpoonup> pyfloat)"

type_synonym metrics = "string \<rightharpoonup> pyfloat"

text \<open>
  The functions of \<^verbatim>\<open>sklearn.metrics\<close> that \<^verbatim>\<open>compute\<close> calls are functions of the
  library, not of this repository: \<^verbatim>\<open>compute\<close> takes them as a parameter, each with the
  arguments of its call in the source (\<open>roc_auc_score_ovr\<close> is the call with
  \<^verbatim>\<open>multi_class='ovr', average='macro'\<close>, \<open>roc_auc_score\<close> the binary one). Any of them
  may raise.
\<close>

record sklearn_metrics =
  balanced_accuracy_score :: "int list \<Rightarrow> int list \<Rightarrow> exn + pyfloat"
  classification_report :: "int list \<Rightarrow> int list \<Rightarrow> string list \<Rightarrow> exn + report"
  roc_auc_score_ovr :: "int list \<Rightarrow> real list list \<Rightarrow> exn + pyfloat"
  roc_auc_score :: "int list \<Rightarrow> real list \<Rightarrow> exn + pyfloat"

text \<open>
  The attributes of \<^verbatim>\<open>MetricsCalculator\<close> that \<^verbatim>\<open>compute\<close> reads.
\<close>

record metrics_calculator =
  class_names :: "string list"
  melanoma_idx :: nat

definition CLASS_NAMES :: "string list" where
  "CLASS_NAMES = [''akiec'', ''bcc'', ''bkl'', ''df'', ''mel'', ''nv'', ''scc'', ''vasc'']"

definition MELANOMA_IDX :: nat where
  "MELANOMA_IDX = 4"

text \<open>\<^verbatim>\<open>list.index\<close>, for an element of the list.\<close>

fun list_index :: "'a list \<Rightarrow> 'a \<Rightarrow> nat" where
  "list_index [] x = 0"
| "list_index (y # ys) x = (if y = x then 0 else Suc (list_index ys x))"

text \<open>
  \<^verbatim>\<open>__init__(self, class_names=CLASS_NAMES, ...)\<close>; \<open>None\<close> is the default.
\<close>

definition MetricsCalculator_init :: "string list option \<Rightarrow> metrics_calculator" where
  "MetricsCalculator_init names =
     (let class_names = (case names of None \<Rightarrow> CLASS_NAMES | Some ns \<Rightarrow> ns)
      in \<lparr>class_names = class_names,
          melanoma_idx = (if ''mel'' \<in> set class_names then list_index class_names ''mel''
                          else MELANOMA_IDX)\<rparr>)"

text \<open>\<^verbatim>\<open>d[k]\<close> and \<^verbatim>\<open>d.get(k, default)\<close> on a dictionary.\<close>

definition getitem :: "('k \<rightharpoonup> 'v) \<Rightarrow> 'k \<Rightarrow> exn + 'v" where
  "getitem d k = (case d k of None \<Rightarrow> Inl KeyError | Some v \<Rightarrow> Inr v)"

definition get_or :: "('k \<rightharpoonup> 'v) \<Rightarrow> 'k \<Rightarrow> 'v \<Rightarrow> 'v" where
  "get_or d k dflt = (case d k of None \<Rightarrow> dflt | Some v \<Rightarrow> v)"

text \<open>
  \<^verbatim>\<open>(all_preds == all_labels).mean()\<close> on two one-dimensional arrays: arrays of different
  lengths cannot be compared elementwise.
\<close>

definition np_mean_equal :: "int list \<Rightarrow> int list \<Rightarrow> exn + pyfloat" where
  "np_mean_equal xs ys =
     (if length xs \<noteq> length ys then Inl ValueError
      else if xs = [] then Inr NaN
      else Inr (Fin (real (length (filter (\<lambda>(x, y). x = y) (zip xs ys))) / real (length xs))))"

text \<open>
  The loop \<^verbatim>\<open>for cls in self.class_names: if cls in report: ...\<close>.
\<close>

fun per_class_f1 :: "report \<Rightarrow> string list \<Rightarrow> metrics \<Rightarrow> exn + metrics" where
  "per_class_f1 report [] metrics = Inr metrics"
| "per_class_f1 report (cls # rest) metrics =
     (case report cls of
        None \<Rightarrow> per_class_f1 report rest metrics
      | Some row \<Rightarrow>
          (case getitem row ''f1-score'' of
             Inl e \<Rightarrow> Inl e
           | Inr v \<Rightarrow> per_class_f1 report rest (metrics(''f1_'' @ cls \<mapsto> v))))"

text \<open>
  The part of \<^verbatim>\<open>compute\<close> before the \<^verbatim>\<open>try\<close> block: the standard metrics, the F1
  scores and the melanoma metrics. An exception here leaves \<^verbatim>\<open>compute\<close>.
\<close>

definition standard_metrics ::
  "sklearn_metrics \<Rightarrow> metrics_calculator \<Rightarrow> int list \<Rightarrow> int list \<Rightarrow> exn + metrics" where
  "standard_metrics sk self all_preds all_labels =
     (case np_mean_equal all_preds all_labels of
        Inl e \<Rightarrow> Inl e
      | Inr accuracy \<Rightarrow>
     (case balanced_accuracy_score sk all_labels all_preds of
        Inl e \<Rightarrow> Inl e
      | Inr balanced_acc \<Rightarrow>
     (case classification_report sk all_labels all_preds (class_names self) of
        Inl e \<Rightarrow> Inl e
      | Inr report \<Rightarrow>
     (case getitem report ''macro avg'' of
        Inl e \<Rightarrow> Inl e
      | Inr macro_avg \<Rightarrow>
     (case getitem macro_avg ''f1-score'' of
        Inl e \<Rightarrow> Inl e
      | Inr macro_f1 \<Rightarrow>
     (case getitem report ''weighted avg'' of
        Inl e \<Rightarrow> Inl e
      | Inr weighted_avg \<Rightarrow>
     (case getitem weighted_avg ''f1-score'' of
        Inl e \<Rightarrow> Inl e
      | Inr f1_weighted \<Rightarrow>
     (case per_class_f1 report (class_names self)
             [''accuracy'' \<mapsto> accuracy, ''balanced_accuracy'' \<mapsto> balanced_acc,
              ''f1_macro'' \<mapsto> macro_f1, ''f1_weighted'' \<mapsto> f1_weighted] of
        Inl e \<Rightarrow> Inl e
      | Inr metrics \<Rightarrow>
          (let mel_report = get_or report ''mel'' Map.empty
           in Inr (metrics(''mel_sensitivity'' \<mapsto> get_or mel_report ''recall'' (Fin 0.0),
                           ''mel_precision'' \<mapsto> get_or mel_report ''precision'' (Fin 0.0),
                           ''mel_f1'' \<mapsto> get_or mel_report ''f1-score'' (Fin 0.0))))))))))))"

text \<open>\<^verbatim>\<open>all_probs[:, j]\<close>.\<close>

definition np_column :: "real list list \<Rightarrow> nat \<Rightarrow> exn + real list" where
  "np_column rows j =
     (if list_all (\<lambda>r. j < length r) rows then Inr (map (\<lambda>r. r ! j) rows) else Inl IndexError)"

text \<open>
  The body of the \<^verbatim>\<open>try\<close> block: the two AUC values, or the exception raised in it.
\<close>

definition auc_metrics ::
  "sklearn_metrics \<Rightarrow> metrics_calculator \<Rightarrow> int list \<Rightarrow> real list list
     \<Rightarrow> exn + (pyfloat \<times> pyfloat)" where
  "auc_metrics sk self all_labels all_probs =
     (case roc_auc_score_ovr sk all_labels all_probs of
        Inl e \<Rightarrow> Inl e
      | Inr auc_roc_macro \<Rightarrow>
          (let mel_binary_labels =
                 map (\<lambda>l. if l = int (melanoma_idx self) then 1 else 0) all_labels
           in case np_column all_probs (melanoma_idx self) of
                Inl e \<Rightarrow> Inl e
              | Inr mel_probs \<Rightarrow>
                  (case roc_auc_score sk mel_binary_labels mel_probs of
                     Inl e \<Rightarrow> Inl e
                   | Inr auc_roc_melanoma \<Rightarrow> Inr (auc_roc_macro, auc_roc_melanoma))))"

text \<open>\<^verbatim>\<open>x < b\<close> on floats: false for \<^verbatim>\<open>nan\<close>.\<close>

fun pyfloat_less :: "pyfloat \<Rightarrow> real \<Rightarrow> bool" where
  "pyfloat_less (Fin a) b = (a < b)"
| "pyfloat_less NaN b = False"

text \<open>
  \<^verbatim>\<open>compute\<close>. The \<^verbatim>\<open>except Exception\<close> branch sets both AUC fields to 0.0. The result is
  the levels of the records logged (the safety alert, if any, and nine \<^verbatim>\<open>info\<close> records)
  and the dictionary returned.
\<close>

definition compute ::
  "sklearn_metrics \<Rightarrow> metrics_calculator \<Rightarrow> int list \<Rightarrow> int list \<Rightarrow> real list list
     \<Rightarrow> exn + (level list \<times> metrics)" where
  "compute sk self all_preds all_labels all_probs =
     (case standard_metrics sk self all_preds all_labels of
        Inl e \<Rightarrow> Inl e
      | Inr metrics \<Rightarrow>
          (let metrics = (case auc_metrics sk self all_labels all_probs of
                            Inr (auc_roc_macro, auc_roc_melanoma) \<Rightarrow>
                              metrics(''auc_roc_macro'' \<mapsto> auc_roc_macro,
                                      ''auc_roc_melanoma'' \<mapsto> auc_roc_melanoma)
                          | Inl e \<Rightarrow>
                              metrics(''auc_roc_macro'' \<mapsto> Fin 0.0,
                                      ''auc_roc_melanoma'' \<mapsto> Fin 0.0))
           in case getitem metrics ''mel_sensitivity'' of
                Inl e \<Rightarrow> Inl e
              | Inr mel_sens \<Rightarrow>
                  Inr ((if pyfloat_less mel_sens 0.85 then [WARNING] else [])
                         @ replicate 9 INFO,
                       metrics)))"

text \<open>
  An evaluation of two samples with the classes \<open>mel\<close> and \<open>nv\<close>, both samples of class
  \<open>mel\<close>, one of them predicted \<open>nv\<close>; and the library on it: with one class among the
  labels, both AUC calls raise \<^verbatim>\<open>ValueError\<close>.
\<close>

definition one_class_report :: report where
  "one_class_report =
     [''mel'' \<mapsto> [''precision'' \<mapsto> Fin 1, ''recall'' \<mapsto> Fin 0.5, ''f1-score'' \<mapsto> Fin (2 / 3)],
      ''nv'' \<mapsto> [''precision'' \<mapsto> Fin 0, ''recall'' \<mapsto> Fin 0, ''f1-score'' \<mapsto> Fin 0],
      ''macro avg'' \<mapsto> [''precision'' \<mapsto> Fin 0.5, ''recall'' \<mapsto> Fin 0.25,
                       ''f1-score'' \<mapsto> Fin (1 / 3)],
      ''weighted avg'' \<mapsto> [''precision'' \<mapsto> Fin 1, ''recall'' \<mapsto> Fin 0.5,
                          ''f1-score'' \<mapsto> Fin (2 / 3)]]"

definition one_class_sklearn :: sklearn_metrics where
  "one_class_sklearn =
     \<lparr>balanced_accuracy_score = (\<lambda>labels preds. Inr (Fin 0.5)),
      classification_report = (\<lambda>labels preds names. Inr one_class_report),
      roc_auc_score_ovr = (\<lambda>labels probs. Inl ValueError),
      roc_auc_score = (\<lambda>labels probs. Inl ValueError)\<rparr>"

definition two_class_calculator :: metrics_calculator where
  "two_class_calculator = MetricsCalculator_init (Some [''mel'', ''nv''])"

text \<open>
  An evaluation of two samples with the eight default class names, one sample of class 4
  (\<open>mel\<close>) and one of class 5 (\<open>nv\<close>), both predicted right; and the library on it. The
  labels and the predictions hold two classes: \<^verbatim>\<open>classification_report\<close>, which is given
  the eight target names and no \<^verbatim>\<open>labels\<close> argument, raises \<^verbatim>\<open>ValueError\<close> (the number of
  classes does not match the size of the target names), and so do the AUC calls (the
  number of classes among the labels is not the number of probability columns). The
  balanced accuracy is 1.0.
\<close>

definition few_classes_sklearn :: sklearn_metrics where
  "few_classes_sklearn =
     \<lparr>balanced_accuracy_score = (\<lambda>labels preds. Inr (Fin 1.0)),
      classification_report = (\<lambda>labels preds names. Inl ValueError),
      roc_auc_score_ovr = (\<lambda>labels probs. Inl ValueError),
      roc_auc_score = (\<lambda>labels probs. Inl ValueError)\<rparr>"

definition few_classes_probs :: "real list list" where
  "few_classes_probs =
     [[0, 0, 0, 0, 0.9, 0.1, 0, 0],
      [0, 0, 0, 0, 0.2, 0.8, 0, 0]]"

section \<open>Early stopping\<close>

text \<open>
  C6. An \<^verbatim>\<open>EarlyStopping\<close> with mode max, patience 3 and min_delta 0.0 that is fed 0.5
  four times returns False on the first three calls and True on the fourth. In general, on
  an object that has seen no value, a call returns False and stores the value as the best one,
  and changes nothing else: the counter is not incremented and not reset.
\<close>

theorem early_stopping_first_value_and_example:
  "EarlyStopping_calls (EarlyStopping_init (Some 3) (Some 0.0) (Some ''max'')) [0.5, 0.5, 0.5, 0.5]
     = [False, False, False, True]
   \<and> (\<forall>self v. best_value self = None \<longrightarrow>
         EarlyStopping_call self v = (False, self\<lparr>best_value := Some v\<rparr>))
   \<and> best_value (EarlyStopping_init p d m) = None"
  by (simp add: EarlyStopping_init_def EarlyStopping_call_def Let_def)

theorem early_stopping_first_value_witness:
  "best_value (EarlyStopping_init (Some 3) (Some 0.0) (Some ''max'')) = None
   \<and> EarlyStopping_call (EarlyStopping_init (Some 3) (Some 0.0) (Some ''max'')) 0.5
       = (False, (EarlyStopping_init (Some 3) (Some 0.0) (Some ''max''))\<lparr>best_value := Some 0.5\<rparr>)"
  using early_stopping_first_value_and_example [of "Some 3" "Some 0.0" "Some ''max''"]
  by blast

section \<open>Checkpoints and the two notions of improvement\<close>

lemma train_epoch_fields:
  assumes "train_epoch t e m = (stop, t1)"
  shows "history_val_balanced_acc t1 = history_val_balanced_acc t @ [balanced_accuracy m]"
    and "best_val_balanced_acc t1 = max (best_val_balanced_acc t) (balanced_accuracy m)"
    and "saves t1 = saves t @ (Latest, \<lparr>ck_epoch = e, ck_val_balanced_acc = balanced_accuracy m,
            ck_val_mel_sensitivity = mel_sensitivity m, ck_metrics = m\<rparr>)
          # (if balanced_accuracy m > best_val_balanced_acc t
             then [(Best, \<lparr>ck_epoch = e, ck_val_balanced_acc = balanced_accuracy m,
                     ck_val_mel_sensitivity = mel_sensitivity m, ck_metrics = m\<rparr>)] else [])"
    and "num_epochs t1 = num_epochs t"
  using assms
  by (auto simp: train_epoch_def save_checkpoint_def Let_def split: prod.splits if_splits)

lemma is_best_flags_Latest_only:
  "new = [] \<or> fst (hd new) = Latest \<Longrightarrow> is_best_flags ((Latest, c) # new) = False # is_best_flags new"
  by (cases new rule: is_best_flags.cases) auto

lemma train_loop_run:
  "\<exists>k new. k \<le> length es
     \<and> history_val_balanced_acc (train_loop V es t)
         = history_val_balanced_acc t @ map (balanced_accuracy \<circ> V) (take k es)
     \<and> saves (train_loop V es t) = saves t @ new
     \<and> (new = [] \<or> fst (hd new) = Latest)
     \<and> is_best_flags new
         = strictly_better_flags (best_val_balanced_acc t) (map (balanced_accuracy \<circ> V) (take k es))
     \<and> map (ck_epoch \<circ> snd) (filter (\<lambda>s. fst s = Latest) new) = take k es"
proof (induction es arbitrary: t)
  case Nil
  show ?case by simp
next
  case (Cons e es)
  obtain stop t1 where step: "train_epoch t e (V e) = (stop, t1)"
    by (cases "train_epoch t e (V e)")
  note f = train_epoch_fields [OF step]
  let ?ck = "\<lparr>ck_epoch = e, ck_val_balanced_acc = balanced_accuracy (V e),
            ck_val_mel_sensitivity = mel_sensitivity (V e), ck_metrics = V e\<rparr>"
  let ?ep = "(Latest, ?ck) # (if balanced_accuracy (V e) > best_val_balanced_acc t then [(Best, ?ck)] else [])"
  show ?case
  proof (cases stop)
    case True
    then have "train_loop V (e # es) t = t1" using step by simp
    then show ?thesis using f
      apply (intro exI [of _ "Suc 0"] exI [of _ ?ep])
      apply (simp del: train_loop.simps add: comp_def)
      done
  next
    case False
    then have eq: "train_loop V (e # es) t = train_loop V es t1" using step by simp
    from Cons.IH [of t1] obtain k new where
      k: "k \<le> length es"
      and h: "history_val_balanced_acc (train_loop V es t1)
         = history_val_balanced_acc t1 @ map (balanced_accuracy \<circ> V) (take k es)"
      and s: "saves (train_loop V es t1) = saves t1 @ new"
      and hd: "new = [] \<or> fst (hd new) = Latest"
      and fl: "is_best_flags new
         = strictly_better_flags (best_val_balanced_acc t1) (map (balanced_accuracy \<circ> V) (take k es))"
      and ep: "map (ck_epoch \<circ> snd) (filter (\<lambda>s. fst s = Latest) new) = take k es"
      by blast
    show ?thesis
      unfolding eq
      apply (intro exI [of _ "Suc k"] exI [of _ "?ep @ new"])
      using k h s hd fl ep f
      apply (simp add: is_best_flags_Latest_only comp_def max_def)
      done
  qed
qed


text \<open>
  C7. In a run of \<^verbatim>\<open>train\<close> from a fresh trainer, the best checkpoint is written in an
  epoch iff the balanced accuracy of that epoch is strictly greater than the best one seen so
  far, which is 0.0 at the start, and the latest checkpoint is written in every epoch that
  runs, in order; the epochs that run are the first ones of the range. One epoch appends the
  latest checkpoint, and the best one iff the flag holds. For the balanced accuracies 0.60,
  0.65, 0.65, 0.70 the flags are True, True, False, True (the early stopping patience being
  at least 2, so that the four epochs run).
\<close>

theorem best_checkpoint_iff_strictly_better:
  "is_best_flags (saves (train V (Trainer_init n p)))
     = strictly_better_flags 0 (history_val_balanced_acc (train V (Trainer_init n p)))
   \<and> map (ck_epoch \<circ> snd) (filter (\<lambda>s. fst s = Latest) (saves (train V (Trainer_init n p))))
       = [0 ..< length (history_val_balanced_acc (train V (Trainer_init n p)))]
   \<and> (\<exists>k \<le> nat n. history_val_balanced_acc (train V (Trainer_init n p))
                      = map (balanced_accuracy \<circ> V) [0 ..< k])
   \<and> saves (snd (train_epoch t e m))
       = saves t @ (Latest, \<lparr>ck_epoch = e, ck_val_balanced_acc = balanced_accuracy m,
                              ck_val_mel_sensitivity = mel_sensitivity m, ck_metrics = m\<rparr>)
           # (if balanced_accuracy m > best_val_balanced_acc t
              then [(Best, \<lparr>ck_epoch = e, ck_val_balanced_acc = balanced_accuracy m,
                             ck_val_mel_sensitivity = mel_sensitivity m, ck_metrics = m\<rparr>)]
              else [])
   \<and> (2 \<le> p \<longrightarrow>
        is_best_flags (saves (train example_validate (Trainer_init 4 p)))
          = [True, True, False, True])"
proof -
  let ?t0 = "Trainer_init n p"
  have init: "saves ?t0 = []" "history_val_balanced_acc ?t0 = []" "best_val_balanced_acc ?t0 = 0"
    "num_epochs ?t0 = n"
    by (simp_all add: Trainer_init_def)
  obtain k new where
    k: "k \<le> length [0 ..< nat n]"
    and h: "history_val_balanced_acc (train_loop V [0 ..< nat n] ?t0)
         = history_val_balanced_acc ?t0 @ map (balanced_accuracy \<circ> V) (take k [0 ..< nat n])"
    and s: "saves (train_loop V [0 ..< nat n] ?t0) = saves ?t0 @ new"
    and fl: "is_best_flags new
         = strictly_better_flags (best_val_balanced_acc ?t0)
             (map (balanced_accuracy \<circ> V) (take k [0 ..< nat n]))"
    and ep: "map (ck_epoch \<circ> snd) (filter (\<lambda>s. fst s = Latest) new) = take k [0 ..< nat n]"
    using train_loop_run [of "[0 ..< nat n]" V ?t0] by blast
  have tk: "take k [0 ..< nat n] = [0 ..< k]" using k by (simp add: take_upt)
  have 1: "is_best_flags (saves (train V ?t0))
     = strictly_better_flags 0 (history_val_balanced_acc (train V ?t0))"
    using h s fl by (simp add: train_def init)
  have 2: "map (ck_epoch \<circ> snd) (filter (\<lambda>s. fst s = Latest) (saves (train V ?t0)))
       = [0 ..< length (history_val_balanced_acc (train V ?t0))]"
    using h s ep tk by (simp add: train_def init)
  have 3: "\<exists>k \<le> nat n. history_val_balanced_acc (train V ?t0)
                      = map (balanced_accuracy \<circ> V) [0 ..< k]"
    using h k tk by (auto simp: train_def init)
  have 4: "saves (snd (train_epoch t e m))
       = saves t @ (Latest, \<lparr>ck_epoch = e, ck_val_balanced_acc = balanced_accuracy m,
                              ck_val_mel_sensitivity = mel_sensitivity m, ck_metrics = m\<rparr>)
           # (if balanced_accuracy m > best_val_balanced_acc t
              then [(Best, \<lparr>ck_epoch = e, ck_val_balanced_acc = balanced_accuracy m,
                             ck_val_mel_sensitivity = mel_sensitivity m, ck_metrics = m\<rparr>)]
              else [])"
    using train_epoch_fields(3) [of t e m "fst (train_epoch t e m)" "snd (train_epoch t e m)"]
    by simp
  have 5: "2 \<le> p \<longrightarrow>
        is_best_flags (saves (train example_validate (Trainer_init 4 p)))
          = [True, True, False, True]"
    by (simp add: train_def Trainer_init_def example_validate_def train_epoch_def
        save_checkpoint_def EarlyStopping_call_def EarlyStopping_init_def Let_def upt_rec
        numeral_nat)
  from 1 2 3 4 5 show ?thesis by blast
qed

theorem best_checkpoint_iff_strictly_better_witness:
  "(2::int) \<le> 7
   \<and> is_best_flags (saves (train example_validate (Trainer_init 4 7))) = [True, True, False, True]"
proof -
  have p: "(2::int) \<le> 7" by simp
  with best_checkpoint_iff_strictly_better
    [of example_validate 4 7 "Trainer_init 4 7" 0 "example_validate 0"]
  show ?thesis by blast
qed

lemma EarlyStopping_call_config:
  "EarlyStopping_call s v = (r, s') \<Longrightarrow>
     min_delta s' = min_delta s \<and> mode s' = mode s \<and> patience s' = patience s"
  by (auto simp: EarlyStopping_call_def Let_def split: option.splits if_splits)

lemma train_epoch_config:
  assumes "train_epoch t e m = (stop, t1)"
  shows "min_delta (early_stopping_of t1) = min_delta (early_stopping_of t)
       \<and> mode (early_stopping_of t1) = mode (early_stopping_of t)
       \<and> patience (early_stopping_of t1) = patience (early_stopping_of t)"
proof -
  obtain r es where c: "EarlyStopping_call (early_stopping_of t) (balanced_accuracy m) = (r, es)"
    by (cases "EarlyStopping_call (early_stopping_of t) (balanced_accuracy m)")
  have "early_stopping_of t1 = es"
    using assms c by (auto simp: train_epoch_def save_checkpoint_def Let_def split: if_splits)
  with EarlyStopping_call_config [OF c] show ?thesis by simp
qed

lemma train_loop_config:
  "min_delta (early_stopping_of (train_loop V es t)) = min_delta (early_stopping_of t)
   \<and> mode (early_stopping_of (train_loop V es t)) = mode (early_stopping_of t)
   \<and> patience (early_stopping_of (train_loop V es t)) = patience (early_stopping_of t)"
proof (induction es arbitrary: t)
  case Nil
  show ?case by simp
next
  case (Cons e es)
  obtain stop t1 where step: "train_epoch t e (V e) = (stop, t1)"
    by (cases "train_epoch t e (V e)")
  from train_epoch_config [OF step] Cons.IH [of t1] step show ?case
    by (cases stop) simp_all
qed

text \<open>
  C10 as stated fails when the two best values differ. After the balanced accuracies 0.5 and
  0.5005 the trainer's best value is 0.5005 and the early stopping object still holds 0.5,
  with counter 1. The third epoch, 0.5011, exceeds the trainer's best by 0.0006: the best
  checkpoint is saved, and the early stopping object, for which 0.5011 > 0.5 + 0.001, resets
  its counter to 0 instead of incrementing it.
\<close>

theorem small_improvement_counterexample:
  "balanced_accuracy (small_steps_validate 2) - best_val_balanced_acc small_steps_state = 0.0006
   \<and> last (saves (snd (train_epoch small_steps_state 2 (small_steps_validate 2))))
       = (Best, \<lparr>ck_epoch = 2, ck_val_balanced_acc = 0.5011, ck_val_mel_sensitivity = 0,
                  ck_metrics = small_steps_validate 2\<rparr>)
   \<and> counter (early_stopping_of small_steps_state) = 1
   \<and> counter (early_stopping_of (snd (train_epoch small_steps_state 2 (small_steps_validate 2)))) = 0"
  by (simp add: small_steps_state_def small_steps_validate_def Trainer_init_def train_epoch_def
      save_checkpoint_def EarlyStopping_call_def EarlyStopping_init_def Let_def)

text \<open>
  C10, as amended. \<^verbatim>\<open>Trainer\<close> constructs its \<^verbatim>\<open>EarlyStopping\<close> with the default
  \<open>min_delta = 0.001\<close>, which no epoch changes. In every state of a run in which the best
  value stored by the early stopping object is the trainer's best balanced accuracy, an epoch
  whose balanced accuracy exceeds that best value by a positive amount smaller than 0.001
  saves a new best checkpoint, and in the same epoch the early stopping object increments
  its counter and keeps its best value; the loop breaks iff the object had already decided
  to stop or the incremented counter reaches the patience.
\<close>

theorem small_improvement_saves_best_and_counts_stale:
  assumes "t = train_loop V es (Trainer_init n p)"
    and "best_value (early_stopping_of t) = Some (best_val_balanced_acc t)"
    and "best_val_balanced_acc t < balanced_accuracy m"
    and "balanced_accuracy m < best_val_balanced_acc t + 0.001"
  shows "min_delta (early_stopping_of (Trainer_init n p)) = 0.001
       \<and> min_delta (early_stopping_of t) = 0.001
       \<and> last (saves (snd (train_epoch t e m)))
           = (Best, \<lparr>ck_epoch = e, ck_val_balanced_acc = balanced_accuracy m,
                      ck_val_mel_sensitivity = mel_sensitivity m, ck_metrics = m\<rparr>)
       \<and> counter (early_stopping_of (snd (train_epoch t e m))) = counter (early_stopping_of t) + 1
       \<and> best_value (early_stopping_of (snd (train_epoch t e m))) = best_value (early_stopping_of t)
       \<and> (fst (train_epoch t e m)
            \<longleftrightarrow> should_stop (early_stopping_of t) \<or> counter (early_stopping_of t) + 1 \<ge> p)"
proof -
  have i: "min_delta (early_stopping_of (Trainer_init n p)) = 0.001"
    "mode (early_stopping_of (Trainer_init n p)) = ''max''"
    "patience (early_stopping_of (Trainer_init n p)) = p"
    by (simp_all add: Trainer_init_def EarlyStopping_init_def)
  from train_loop_config [of V es "Trainer_init n p"] i assms(1)
  have c: "min_delta (early_stopping_of t) = 0.001" "mode (early_stopping_of t) = ''max''"
    "patience (early_stopping_of t) = p"
    by simp_all
  show ?thesis
    using i(1) c assms(2-4)
    by (simp add: train_epoch_def save_checkpoint_def EarlyStopping_call_def Let_def)
qed

theorem small_improvement_witness:
  "train_loop small_steps_validate [0] (Trainer_init 3 7)
     = train_loop small_steps_validate [0] (Trainer_init 3 7)
   \<and> best_value (early_stopping_of (train_loop small_steps_validate [0] (Trainer_init 3 7)))
       = Some (best_val_balanced_acc (train_loop small_steps_validate [0] (Trainer_init 3 7)))
   \<and> best_val_balanced_acc (train_loop small_steps_validate [0] (Trainer_init 3 7))
       < balanced_accuracy (small_steps_validate 1)
   \<and> balanced_accuracy (small_steps_validate 1)
       < best_val_balanced_acc (train_loop small_steps_validate [0] (Trainer_init 3 7)) + 0.001
   \<and> counter (early_stopping_of (snd (train_epoch
         (train_loop small_steps_validate [0] (Trainer_init 3 7)) 1 (small_steps_validate 1)))) = 1
   \<and> fst (last (saves (snd (train_epoch
         (train_loop small_steps_validate [0] (Trainer_init 3 7)) 1 (small_steps_validate 1))))) = Best"
proof -
  let ?t = "train_loop small_steps_validate [0] (Trainer_init 3 7)"
  have a: "best_value (early_stopping_of ?t) = Some (best_val_balanced_acc ?t)"
    and b: "best_val_balanced_acc ?t < balanced_accuracy (small_steps_validate 1)"
    and c: "balanced_accuracy (small_steps_validate 1) < best_val_balanced_acc ?t + 0.001"
    and d: "counter (early_stopping_of ?t) = 0"
    by (simp_all add: small_steps_validate_def Trainer_init_def train_epoch_def
        save_checkpoint_def EarlyStopping_call_def EarlyStopping_init_def Let_def)
  from small_improvement_saves_best_and_counts_stale [OF refl a b c, of 1] a b c d
  show ?thesis by simp
qed

section \<open>Label harmonisation and merging\<close>

lemma idxmax_all_zero:
  assumes "\<forall>c\<in>set label_columns. f c = (0::real)"
  shows "idxmax label_columns f = ''MEL''"
  using assms by (simp add: label_columns_def)

lemma str_lower_MEL: "replace_ak (str_lower ''MEL'') = ''mel''"
  by (simp add: replace_ak_def str_lower_def char_lower_def less_eq_char_def char_of_def bit_0)

text \<open>
  C4, as amended. When the frame has all the label columns and at least one row,
  \<^verbatim>\<open>harmonize_isic_labels\<close> returns one row for every input row, in order: no row is
  rejected. A row in which
  no indicator column is set (all eight values are zero) is kept and labelled \<open>mel\<close>, the
  class of the first label column.
\<close>

theorem harmonize_keeps_unlabelled_rows:
  assumes "set label_columns \<subseteq> set (isic_columns df)"
    and "isic_rows df \<noteq> []"
  shows "\<exists>out. harmonize_isic_labels df = Inr out
           \<and> length out = length (isic_rows df)
           \<and> (\<forall>k < length out.
                 isic_image (out ! k) = isic_image (isic_rows df ! k)
                 \<and> ((\<forall>c\<in>set label_columns. isic_value (isic_rows df ! k) c = 0)
                      \<longrightarrow> isic_dx (out ! k) = ''mel''))"
  using assms(1) by (simp add: harmonize_isic_labels_def idxmax_all_zero str_lower_MEL)

text \<open>
  C4 as stated fails: the frame of one row with no indicator set is not rejected, neither as
  a whole nor the row; the row comes back labelled \<open>mel\<close>.
\<close>

theorem harmonize_unlabelled_row_counterexample:
  "map (isic_value (hd (isic_rows unlabelled_frame))) label_columns = [0, 0, 0, 0, 0, 0, 0, 0]
   \<and> map_sum id (map isic_dx) (harmonize_isic_labels unlabelled_frame) = Inr [''mel'']"
  by (simp add: harmonize_isic_labels_def unlabelled_frame_def label_columns_def str_lower_def
      char_lower_def replace_ak_def less_eq_char_def char_of_def bit_0)

theorem harmonize_keeps_unlabelled_rows_witness:
  "set label_columns \<subseteq> set (isic_columns unlabelled_frame)
   \<and> (\<exists>out. harmonize_isic_labels unlabelled_frame = Inr out \<and> length out = 1
          \<and> isic_dx (out ! 0) = ''mel'')"
proof -
  have h: "set label_columns \<subseteq> set (isic_columns unlabelled_frame)"
    by (auto simp: unlabelled_frame_def)
  have z: "\<forall>c\<in>set label_columns. isic_value (isic_rows unlabelled_frame ! 0) c = 0"
    by (simp add: unlabelled_frame_def)
  have l: "length (isic_rows unlabelled_frame) = 1"
    by (simp add: unlabelled_frame_def)
  have ne: "isic_rows unlabelled_frame \<noteq> []"
    by (simp add: unlabelled_frame_def)
  from harmonize_keeps_unlabelled_rows [OF h ne] obtain out where
    o: "harmonize_isic_labels unlabelled_frame = Inr out"
    "length out = length (isic_rows unlabelled_frame)"
    "\<forall>k < length out.
        isic_image (out ! k) = isic_image (isic_rows unlabelled_frame ! k)
        \<and> ((\<forall>c\<in>set label_columns. isic_value (isic_rows unlabelled_frame ! k) c = 0)
             \<longrightarrow> isic_dx (out ! k) = ''mel'')"
    by blast
  from o(2,3) l z have "isic_dx (out ! 0) = ''mel''" by simp
  with h o(1,2) l show ?thesis by simp
qed

lemma filter_key_distinct:
  "distinct (map f xs) \<Longrightarrow> x \<in> set xs \<Longrightarrow> filter (\<lambda>y. f y = f x) xs = [x]"
proof (induction xs)
  case Nil
  then show ?case by simp
next
  case (Cons a xs)
  show ?case
  proof (cases "a = x")
    case True
    with Cons.prems have "\<forall>y\<in>set xs. f y \<noteq> f x" by (metis distinct.simps(2) image_eqI list.simps(9) set_map)
    then have "filter (\<lambda>y. f y = f x) xs = []" by (simp add: filter_empty_conv)
    with True show ?thesis by simp
  next
    case False
    with Cons.prems have "x \<in> set xs" "f a \<noteq> f x" by auto
    with Cons show ?thesis by simp
  qed
qed

text \<open>
  C5. When the first source has no duplicate id and both metadata files are there with the
  label columns, \<^verbatim>\<open>merge_datasets\<close> returns, and an id that occurs in both sources occurs in
  the merged registry exactly once: as the row of the first source, with that row's label
  and the source tag \<open>ham10000\<close>.
\<close>

theorem merge_keeps_overlap_once_from_first:
  assumes "set label_columns \<subseteq> set (isic_columns isic)"
    and "distinct (map ham_image_id ham)"
    and "h \<in> set ham"
    and "ham_image_id h \<in> isic_image ` set (isic_rows isic)"
  shows "\<exists>master stats. merge_datasets (Some ham) (Some isic) = Inr (master, stats)
           \<and> filter (\<lambda>r. image_id r = ham_image_id h) master
               = [\<lparr>image_id = ham_image_id h, dx = ham_dx h, source = ''ham10000''\<rparr>]"
proof -
  let ?ham_df = "map (\<lambda>r. \<lparr>image_id = ham_image_id r, dx = ham_dx r, source = ''ham10000''\<rparr>) ham"
  have ne: "?ham_df \<noteq> []" using assms(3) by auto
  have "filter (\<lambda>y. ham_image_id y = ham_image_id h) ham = [h]"
    using assms(2,3) by (rule filter_key_distinct)
  then have first: "filter (\<lambda>r. image_id r = ham_image_id h) ?ham_df
      = [\<lparr>image_id = ham_image_id h, dx = ham_dx h, source = ''ham10000''\<rparr>]"
    by (simp add: filter_map comp_def)
  have mem: "ham_image_id h \<in> set (map image_id ?ham_df)"
    using assms(3) by (force simp: comp_def)
  have second: "filter (\<lambda>r. image_id r = ham_image_id h) (remove_duplicates ?ham_df rest) = []" for rest
    using mem by (auto simp: remove_duplicates_def filter_empty_conv Let_def)
  show ?thesis
    using assms(1) ne first second
    by (simp add: merge_datasets_def harmonize_isic_labels_def Let_def)
qed

theorem merge_keeps_overlap_once_from_first_witness:
  "set label_columns \<subseteq> set (isic_columns overlap_isic)
   \<and> distinct (map ham_image_id overlap_ham)
   \<and> hd overlap_ham \<in> set overlap_ham
   \<and> ham_image_id (hd overlap_ham) \<in> isic_image ` set (isic_rows overlap_isic)
   \<and> (\<exists>master stats. merge_datasets (Some overlap_ham) (Some overlap_isic) = Inr (master, stats)
          \<and> filter (\<lambda>r. image_id r = ''ISIC_0024306'') master
              = [\<lparr>image_id = ''ISIC_0024306'', dx = ''nv'', source = ''ham10000''\<rparr>])"
proof -
  have a: "set label_columns \<subseteq> set (isic_columns overlap_isic)"
    by (auto simp: overlap_isic_def)
  have b: "distinct (map ham_image_id overlap_ham)"
    by (simp add: overlap_ham_def)
  have c: "hd overlap_ham \<in> set overlap_ham"
    by (simp add: overlap_ham_def)
  have d: "ham_image_id (hd overlap_ham) \<in> isic_image ` set (isic_rows overlap_isic)"
    by (simp add: overlap_ham_def overlap_isic_def)
  have e: "ham_image_id (hd overlap_ham) = ''ISIC_0024306''" "ham_dx (hd overlap_ham) = ''nv''"
    by (simp_all add: overlap_ham_def)
  from merge_keeps_overlap_once_from_first [OF a b c d] a b c d e show ?thesis by simp
qed

section \<open>Stratified splitting\<close>

lemma stratified_assign_mset:
  "stratified_assign quota seen rs = (a, b) \<Longrightarrow> mset a + mset b = mset rs"
proof (induction rs arbitrary: seen a b)
  case Nil
  then show ?case by simp
next
  case (Cons r rs)
  obtain a' b' where rec: "stratified_assign quota (seen (dx r := seen (dx r) + 1)) rs = (a', b')"
    by (cases "stratified_assign quota (seen (dx r := seen (dx r) + 1)) rs")
  from Cons.IH [OF rec] have "mset a' + mset b' = mset rs" .
  with Cons.prems rec show ?case
    by (auto split: if_splits)
qed

lemma sk_train_test_split_partitions:
  "sk_train_test_split ts rs d = Inr (a, b) \<Longrightarrow> mset a + mset b = mset d"
  by (auto simp: sk_train_test_split_def Let_def split: if_splits dest: stratified_assign_mset)

lemma sk_train_test_split_refuses:
  assumes "r \<in> set d" and "class_count (dx r) d < 2"
  shows "sk_train_test_split ts rs d = Inl ValueError"
proof -
  have "list_ex (\<lambda>k. k < 2) (map (\<lambda>c. class_count c d) (remdups (map dx d)))"
    using assms by (auto simp: list_ex_iff)
  then show ?thesis
    by (simp add: sk_train_test_split_def Let_def)
qed

text \<open>
  C1. Whatever split \<^verbatim>\<open>split_data\<close> returns has no row created or dropped: the sizes of the
  three partitions add up to the size of the registry, the partitions together hold exactly
  the rows of the registry, and when the ids of the registry are distinct (the invariant of a
  merged registry) the three id sets are pairwise disjoint. This holds for every ratio
  triple, given that a returned \<^verbatim>\<open>train_test_split\<close> divides the rows it is given between
  its two parts.
\<close>

theorem split_data_partitions_registry:
  assumes "\<forall>ts rs d a b. tts ts rs d = Inr (a, b) \<longrightarrow> mset a + mset b = mset d"
    and "snd (split_data tts self df) = Inr (train_df, val_df, test_df)"
  shows "length train_df + length val_df + length test_df = length df
       \<and> mset train_df + mset val_df + mset test_df = mset df
       \<and> (distinct (map image_id df) \<longrightarrow>
            set (map image_id train_df) \<inter> set (map image_id val_df) = {}
          \<and> set (map image_id train_df) \<inter> set (map image_id test_df) = {}
          \<and> set (map image_id val_df) \<inter> set (map image_id test_df) = {})"
proof -
  from assms(2) obtain temp_df where
    s1: "tts (val_ratio self + test_ratio self) (random_state self) df = Inr (train_df, temp_df)"
    and s2: "tts 0.5 (random_state self) temp_df = Inr (val_df, test_df)"
    by (auto simp: split_data_def Let_def split: sum.splits prod.splits if_splits)
  from assms(1) s1 have m1: "mset train_df + mset temp_df = mset df" by blast
  from assms(1) s2 have m2: "mset val_df + mset test_df = mset temp_df" by blast
  from m1 m2 have m: "mset train_df + mset val_df + mset test_df = mset df"
    by (simp add: add.assoc)
  then have "size (mset train_df + mset val_df + mset test_df) = size (mset df)" by simp
  then have l: "length train_df + length val_df + length test_df = length df" by simp
  have d: "set (map image_id train_df) \<inter> set (map image_id val_df) = {}
          \<and> set (map image_id train_df) \<inter> set (map image_id test_df) = {}
          \<and> set (map image_id val_df) \<inter> set (map image_id test_df) = {}"
    if dist: "distinct (map image_id df)"
  proof -
    from m have "mset (train_df @ val_df @ test_df) = mset df" by (simp add: add.assoc)
    then have "mset (map image_id (train_df @ val_df @ test_df)) = mset (map image_id df)"
      by (metis mset_map)
    with dist have "distinct (map image_id (train_df @ val_df @ test_df))"
      by (metis mset_eq_imp_distinct_iff)
    then show ?thesis by auto
  qed
  from l m d show ?thesis by blast
qed

theorem split_data_partitions_registry_witness:
  "split_sizes (snd (split_data sk_train_test_split default_splitter example_registry))
       = Inr (11, 2, 3)
   \<and> distinct (map image_id example_registry)
   \<and> (\<exists>train_df val_df test_df.
         snd (split_data sk_train_test_split default_splitter example_registry)
           = Inr (train_df, val_df, test_df)
         \<and> length train_df + length val_df + length test_df = length example_registry
         \<and> set (map image_id train_df) \<inter> set (map image_id val_df) = {}
         \<and> set (map image_id train_df) \<inter> set (map image_id test_df) = {}
         \<and> set (map image_id val_df) \<inter> set (map image_id test_df) = {})"
proof -
  have c: "\<forall>ts rs d a b. sk_train_test_split ts rs d = Inr (a, b) \<longrightarrow> mset a + mset b = mset d"
    using sk_train_test_split_partitions by blast
  have z: "split_sizes (snd (split_data sk_train_test_split default_splitter example_registry))
       = Inr (11, 2, 3)"
    by code_simp
  have dist: "distinct (map image_id example_registry)"
    by code_simp
  from z obtain train_df val_df test_df where
    r: "snd (split_data sk_train_test_split default_splitter example_registry)
           = Inr (train_df, val_df, test_df)"
    by (auto simp: split_sizes_def split: sum.splits)
  from split_data_partitions_registry [OF c r] dist z r show ?thesis by blast
qed

text \<open>
  C2. The second stage does not use \<open>val_ratio\<close> and \<open>test_ratio\<close>: it always asks for
  one half. With the accepted ratios (0.7, 0.2, 0.1) the registry of 16 rows is split into 11,
  2 and 3 rows, where the proportion \<open>val_ratio / (val_ratio + test_ratio)\<close> of the 5
  held-out rows asks for a validation set twice the size of the test set; with
  (0.25, 0.5, 0.25) it is split into 4, 6 and 6 rows, not 4, 8 and 4.
\<close>

theorem split_data_second_stage_halves:
  "StratifiedDataSplitter_init True 0.7 0.2 0.1 42
     = Inr \<lparr>train_ratio = 0.7, val_ratio = 0.2, test_ratio = 0.1, random_state = 42\<rparr>
   \<and> split_sizes (snd (split_data sk_train_test_split
        \<lparr>train_ratio = 0.7, val_ratio = 0.2, test_ratio = 0.1, random_state = 42\<rparr>
        example_registry)) = Inr (11, 2, 3)
   \<and> split_sizes (snd (split_data sk_train_test_split
        \<lparr>train_ratio = 0.25, val_ratio = 0.5, test_ratio = 0.25, random_state = 42\<rparr>
        example_registry)) = Inr (4, 6, 6)"
proof -
  have a: "StratifiedDataSplitter_init True 0.7 0.2 0.1 42
     = Inr \<lparr>train_ratio = 0.7, val_ratio = 0.2, test_ratio = 0.1, random_state = 42\<rparr>"
    by (simp add: StratifiedDataSplitter_init_def isclose_def)
  have b: "split_sizes (snd (split_data sk_train_test_split
        \<lparr>train_ratio = 0.7, val_ratio = 0.2, test_ratio = 0.1, random_state = 42\<rparr>
        example_registry)) = Inr (11, 2, 3)"
    by code_simp
  have c: "split_sizes (snd (split_data sk_train_test_split
        \<lparr>train_ratio = 0.25, val_ratio = 0.5, test_ratio = 0.25, random_state = 42\<rparr>
        example_registry)) = Inr (4, 6, 6)"
    by code_simp
  from a b c show ?thesis by blast
qed

text \<open>
  C3 as stated fails: on the registry whose class \<open>df\<close> has one row, \<^verbatim>\<open>split_data\<close>
  raises \<^verbatim>\<open>ValueError\<close> after ten \<^verbatim>\<open>info\<close> records, and assigns nothing.
\<close>

theorem split_data_single_member_class_counterexample:
  "class_count ''df'' rare_class_registry = 1
   \<and> snd (split_data sk_train_test_split default_splitter rare_class_registry) = Inl ValueError
   \<and> fst (split_data sk_train_test_split default_splitter rare_class_registry) = replicate 10 INFO"
  by code_simp

text \<open>
  C3, as amended. For every registry in which some class has fewer than 2 rows,
  \<^verbatim>\<open>split_data\<close> fails: the \<^verbatim>\<open>ValueError\<close> with which the stratified
  \<^verbatim>\<open>train_test_split\<close> refuses such a class is raised by the first split and is not
  caught; the records logged until then are \<^verbatim>\<open>info\<close> records, and no warning is emitted.
\<close>

theorem split_data_fails_on_single_member_class:
  assumes "\<forall>ts rs d. (\<exists>r\<in>set d. class_count (dx r) d < 2) \<longrightarrow> tts ts rs d = Inl ValueError"
    and "r \<in> set df"
    and "class_count (dx r) df < 2"
  shows "split_data tts self df
           = (replicate 6 INFO @ map (\<lambda>cls. INFO) (remdups (map dx df)) @ [INFO], Inl ValueError)
       \<and> WARNING \<notin> set (fst (split_data tts self df))"
proof -
  from assms have "tts (val_ratio self + test_ratio self) (random_state self) df = Inl ValueError"
    by blast
  then show ?thesis
    by (auto simp: split_data_def Let_def)
qed

theorem split_data_fails_on_single_member_class_witness:
  "hd rare_class_registry \<in> set rare_class_registry
   \<and> class_count (dx (hd rare_class_registry)) rare_class_registry < 2
   \<and> snd (split_data sk_train_test_split default_splitter rare_class_registry) = Inl ValueError
   \<and> WARNING \<notin> set (fst (split_data sk_train_test_split default_splitter rare_class_registry))"
proof -
  have c: "\<forall>ts rs d. (\<exists>r\<in>set d. class_count (dx r) d < 2)
       \<longrightarrow> sk_train_test_split ts rs d = Inl ValueError"
    using sk_train_test_split_refuses by blast
  have m: "hd rare_class_registry \<in> set rare_class_registry"
    by (simp add: rare_class_registry_def)
  have k: "class_count (dx (hd rare_class_registry)) rare_class_registry < 2"
    by code_simp
  from split_data_fails_on_single_member_class [OF c m k, of default_splitter]
  have e: "split_data sk_train_test_split default_splitter rare_class_registry
           = (replicate 6 INFO @ map (\<lambda>cls. INFO) (remdups (map dx rare_class_registry)) @ [INFO],
              Inl ValueError)"
    and w: "WARNING \<notin> set (fst (split_data sk_train_test_split default_splitter
                                      rare_class_registry))"
    by blast+
  from e have s: "snd (split_data sk_train_test_split default_splitter rare_class_registry)
                    = Inl ValueError"
    by simp
  from m k s w show ?thesis by blast
qed

section \<open>Class weights\<close>

lemma class_weight_ok:
  assumes "method = ''inverse_frequency'' \<or> method = ''effective_number''"
    and "0 < n" and "0 < k"
  shows "\<exists>w. class_weight method tot n k = Inr w"
proof -
  from assms(3) obtain j where k: "k = Suc j" by (cases k) auto
  have "(0.9999::real) ^ Suc j < 1"
    by (rule power_Suc_less_one) simp_all
  with k have "(0.9999::real) ^ k < 1" by simp
  then show ?thesis
    using assms by (auto simp: class_weight_def Let_def)
qed

lemma np_setitem_ok:
  "0 \<le> idx \<Longrightarrow> idx < int (length ws) \<Longrightarrow> np_setitem ws idx v = Inr (ws[nat idx := v])"
  by (simp add: np_setitem_def Let_def)

lemma weights_loop_ok:
  assumes "method = ''inverse_frequency'' \<or> method = ''effective_number''"
    and "0 < n"
    and "distinct (map snd items)"
    and "\<forall>i\<in>set (map snd items). 0 \<le> i \<and> i < int (length ws)"
  shows "\<exists>warnings' ws'.
           weights_loop method tot n cc items warnings ws = (warnings', Inr ws')
           \<and> length ws' = length ws
           \<and> set warnings \<subseteq> set warnings'
           \<and> (\<forall>j < length ws. int j \<notin> set (map snd items) \<longrightarrow> ws' ! j = ws ! j)
           \<and> (\<forall>(c, i)\<in>set items. (cc c = None \<or> cc c = Some 0) \<longrightarrow>
                 ws' ! nat i = 1 \<and> zero_samples_warning c \<in> set warnings')"
  using assms(3,4)
proof (induction items arbitrary: warnings ws)
  case Nil
  show ?case by simp
next
  case (Cons item items)
  obtain c i where item: "item = (c, i)" by (cases item)
  from Cons.prems item have i: "0 \<le> i" "i < int (length ws)" by auto
  from Cons.prems item have ni: "i \<notin> set (map snd items)" and d: "distinct (map snd items)"
    by auto
  let ?cnt = "case cc c of None \<Rightarrow> 0 | Some k \<Rightarrow> k"
  define v where "v = (if ?cnt = 0 then 1
                       else (case class_weight method tot n ?cnt of Inr w \<Rightarrow> w | Inl e \<Rightarrow> 0))"
  define wa where "wa = (if ?cnt = 0 then warnings @ [zero_samples_warning c] else warnings)"
  have step: "weights_loop method tot n cc (item # items) warnings ws
        = weights_loop method tot n cc items wa (ws[nat i := v])"
  proof (cases "?cnt = 0")
    case True
    then show ?thesis
      using i by (simp add: item np_setitem_ok v_def wa_def Let_def)
  next
    case False
    then obtain w where "class_weight method tot n ?cnt = Inr w"
      using class_weight_ok [OF assms(1,2), of ?cnt tot] by auto
    with False show ?thesis
      using i by (simp add: item np_setitem_ok v_def wa_def Let_def)
  qed
  have r: "\<forall>i\<in>set (map snd items). 0 \<le> i \<and> i < int (length (ws[nat i := v]))"
    using Cons.prems by simp
  have r': "\<forall>j\<in>set (map snd items). 0 \<le> j \<and> j < int (length (ws[nat i := v]))"
    using Cons.prems by simp
  from Cons.IH [OF d r', of wa] obtain warnings' ws' where
    run: "weights_loop method tot n cc items wa (ws[nat i := v]) = (warnings', Inr ws')"
    and len: "length ws' = length (ws[nat i := v])"
    and sub: "set wa \<subseteq> set warnings'"
    and keep: "\<forall>j < length (ws[nat i := v]). int j \<notin> set (map snd items)
                 \<longrightarrow> ws' ! j = (ws[nat i := v]) ! j"
    and ones: "\<forall>(c, i)\<in>set items. (cc c = None \<or> cc c = Some 0) \<longrightarrow>
                 ws' ! nat i = 1 \<and> zero_samples_warning c \<in> set warnings'"
    by blast
  have here: "ws' ! nat i = v"
    using keep i ni by (simp add: nth_list_update)
  have a: "set warnings \<subseteq> set warnings'"
    using sub by (auto simp: wa_def split: if_splits)
  have b: "\<forall>j < length ws. int j \<notin> set (map snd (item # items)) \<longrightarrow> ws' ! j = ws ! j"
    using keep i by (auto simp: item nth_list_update)
  have c: "(cc c = None \<or> cc c = Some 0) \<longrightarrow>
             ws' ! nat i = 1 \<and> zero_samples_warning c \<in> set warnings'"
    using here sub by (auto simp: v_def wa_def)
  show ?case
    unfolding step
    using run len a b c ones by (auto simp: item)
qed

lemma value_counts_None: "class_count c df = 0 \<Longrightarrow> value_counts (map dx df) c = None"
  by (auto simp: class_count_def value_counts_def filter_empty_conv)

text \<open>
  C8. For every training registry, either method, and every class-to-index mapping whose
  indices are distinct and within the number of classes, \<^verbatim>\<open>compute_class_weights\<close> returns
  (it does not raise, and divides by zero nowhere) a weight vector with one entry per class of
  the mapping; every class of the mapping with zero samples in the registry has the weight
  1.0 at its index, and a warning naming it is logged.
\<close>

theorem zero_count_class_gets_unit_weight:
  assumes "method = ''inverse_frequency'' \<or> method = ''effective_number''"
    and "distinct (map fst class_to_idx)"
    and "distinct (map snd class_to_idx)"
    and "\<forall>i\<in>set (map snd class_to_idx). 0 \<le> i \<and> i < int (length class_to_idx)"
  shows "\<exists>warnings weights.
           compute_class_weights df class_to_idx method = (warnings, Inr weights)
           \<and> length weights = length class_to_idx
           \<and> (\<forall>(c, i)\<in>set class_to_idx. class_count c df = 0 \<longrightarrow>
                 weights ! nat i = 1 \<and> zero_samples_warning c \<in> set warnings)"
proof (cases "class_to_idx = []")
  case True
  then show ?thesis by (simp add: compute_class_weights_def)
next
  case False
  then have n: "0 < length class_to_idx" by simp
  have r: "\<forall>i\<in>set (map snd class_to_idx).
             0 \<le> i \<and> i < int (length (replicate (length class_to_idx) (0::real)))"
    using assms(4) by simp
  from weights_loop_ok [OF assms(1) n assms(3) r,
      of "length df" "value_counts (map dx df)" "[]"]
  obtain warnings' ws' where
    run: "weights_loop method (length df) (length class_to_idx) (value_counts (map dx df))
            class_to_idx [] (replicate (length class_to_idx) 0) = (warnings', Inr ws')"
    and len: "length ws' = length (replicate (length class_to_idx) (0::real))"
    and ones: "\<forall>(c, i)\<in>set class_to_idx.
                 (value_counts (map dx df) c = None \<or> value_counts (map dx df) c = Some 0) \<longrightarrow>
                 ws' ! nat i = 1 \<and> zero_samples_warning c \<in> set warnings'"
    by blast
  show ?thesis
    using run len ones
    by (auto simp: compute_class_weights_def Let_def dest: value_counts_None)
qed

theorem zero_count_class_gets_unit_weight_witness:
  "(''inverse_frequency'' = ''inverse_frequency'' \<or> ''inverse_frequency'' = ''effective_number'')
   \<and> distinct (map fst example_class_to_idx)
   \<and> distinct (map snd example_class_to_idx)
   \<and> list_all (\<lambda>i. 0 \<le> i \<and> i < int (length example_class_to_idx))
         (map snd example_class_to_idx)
   \<and> class_count ''df'' example_registry = 0
   \<and> (\<exists>warnings weights.
         compute_class_weights example_registry example_class_to_idx ''inverse_frequency''
           = (warnings, Inr weights)
         \<and> length weights = 3
         \<and> weights ! 2 = 1
         \<and> zero_samples_warning ''df'' \<in> set warnings)"
proof -
  have a: "''inverse_frequency'' = ''inverse_frequency'' \<or> ''inverse_frequency'' = ''effective_number''"
    by simp
  have b: "distinct (map fst example_class_to_idx)"
    and c: "distinct (map snd example_class_to_idx)"
    and d: "\<forall>i\<in>set (map snd example_class_to_idx). 0 \<le> i \<and> i < int (length example_class_to_idx)"
    by (simp_all add: example_class_to_idx_def)
  have z: "class_count ''df'' example_registry = 0"
    by code_simp
  have m: "(''df'', 2) \<in> set example_class_to_idx" and l: "length example_class_to_idx = 3"
    by (simp_all add: example_class_to_idx_def)
  from zero_count_class_gets_unit_weight [OF a b c d, of example_registry]
  obtain warnings weights where
    r: "compute_class_weights example_registry example_class_to_idx ''inverse_frequency''
          = (warnings, Inr weights)"
    "length weights = length example_class_to_idx"
    "\<forall>(c, i)\<in>set example_class_to_idx. class_count c example_registry = 0 \<longrightarrow>
        weights ! nat i = 1 \<and> zero_samples_warning c \<in> set warnings"
    by blast
  from r(3) m z have "weights ! 2 = 1 \<and> zero_samples_warning ''df'' \<in> set warnings"
    by fastforce
  moreover have "list_all (\<lambda>i. 0 \<le> i \<and> i < int (length example_class_to_idx))
                   (map snd example_class_to_idx)"
    using d by (simp add: list_all_iff)
  ultimately show ?thesis using a b c z r(1,2) l by auto
qed

section \<open>Metrics\<close>

lemma per_class_f1_keeps:
  "per_class_f1 report names m = Inr m' \<Longrightarrow> dom m \<subseteq> dom m'"
proof (induction names arbitrary: m)
  case Nil
  then show ?case by simp
next
  case (Cons cls rest)
  show ?case
  proof (cases "report cls")
    case None
    with Cons show ?thesis by simp
  next
    case (Some row)
    with Cons.prems obtain v where v: "getitem row ''f1-score'' = Inr v"
      and r: "per_class_f1 report rest (m(''f1_'' @ cls \<mapsto> v)) = Inr m'"
      by (auto split: sum.splits)
    have "dom m \<subseteq> dom (m(''f1_'' @ cls \<mapsto> v))"
      by (metis dom_fun_upd option.simps(3) subset_insertI)
    with Cons.IH [OF r] show ?thesis by blast
  qed
qed

lemma standard_metrics_keys:
  assumes "standard_metrics sk self ps ls = Inr m"
  shows "{''accuracy'', ''balanced_accuracy'', ''f1_macro'', ''f1_weighted'',
          ''mel_sensitivity'', ''mel_precision'', ''mel_f1''} \<subseteq> dom m"
  using assms
  by (auto simp: standard_metrics_def Let_def split: sum.splits dest!: per_class_f1_keeps)

text \<open>
  C9, as amended. For every input on which the part of \<^verbatim>\<open>compute\<close> before the
  \<^verbatim>\<open>try\<close> block (the accuracy, the balanced accuracy, the classification report and the
  metrics read from it) returns and the AUC computation in the \<^verbatim>\<open>try\<close> block raises,
  \<^verbatim>\<open>compute\<close> returns: no exception propagates, the macro AUC and the melanoma AUC are
  both 0.0 in the returned dictionary, and every other metric is returned as computed, among
  them the accuracy, the balanced accuracy, the two F1 averages and the three melanoma
  metrics.
\<close>

theorem auc_failure_defaults_to_zero:
  assumes "standard_metrics sk self all_preds all_labels = Inr m"
    and "auc_metrics sk self all_labels all_probs = Inl e"
  shows "\<exists>lg metrics.
           compute sk self all_preds all_labels all_probs = Inr (lg, metrics)
           \<and> metrics ''auc_roc_macro'' = Some (Fin 0.0)
           \<and> metrics ''auc_roc_melanoma'' = Some (Fin 0.0)
           \<and> (\<forall>k. k \<noteq> ''auc_roc_macro'' \<and> k \<noteq> ''auc_roc_melanoma'' \<longrightarrow> metrics k = m k)
           \<and> {''accuracy'', ''balanced_accuracy'', ''f1_macro'', ''f1_weighted'',
               ''mel_sensitivity'', ''mel_precision'', ''mel_f1''} \<subseteq> dom metrics"
proof -
  from standard_metrics_keys [OF assms(1)] obtain s where s: "m ''mel_sensitivity'' = Some s"
    by auto
  let ?metrics = "m(''auc_roc_macro'' \<mapsto> Fin 0.0, ''auc_roc_melanoma'' \<mapsto> Fin 0.0)"
  have c: "compute sk self all_preds all_labels all_probs
             = Inr ((if pyfloat_less s 0.85 then [WARNING] else []) @ replicate 9 INFO, ?metrics)"
    using assms s by (simp add: compute_def getitem_def Let_def)
  have k: "{''accuracy'', ''balanced_accuracy'', ''f1_macro'', ''f1_weighted'',
               ''mel_sensitivity'', ''mel_precision'', ''mel_f1''} \<subseteq> dom ?metrics"
    using standard_metrics_keys [OF assms(1)] by auto
  show ?thesis
    apply (intro exI [of _ "(if pyfloat_less s 0.85 then [WARNING] else []) @ replicate 9 INFO"]
        exI [of _ ?metrics])
    using c k by simp
qed

text \<open>
  C9 as stated fails: only the AUC calls are inside the \<^verbatim>\<open>try\<close> block. On the evaluation
  with two of the eight classes the AUC computation fails, and \<^verbatim>\<open>compute\<close> does not
  return a dictionary with the AUC fields at 0.0: the \<^verbatim>\<open>ValueError\<close> of
  \<^verbatim>\<open>classification_report\<close>, raised before the \<^verbatim>\<open>try\<close> block, propagates out of it.
\<close>

theorem auc_failure_with_few_classes_counterexample:
  "class_names (MetricsCalculator_init None) = CLASS_NAMES
   \<and> auc_metrics few_classes_sklearn (MetricsCalculator_init None) [4, 5] few_classes_probs
       = Inl ValueError
   \<and> compute few_classes_sklearn (MetricsCalculator_init None) [4, 5] [4, 5] few_classes_probs
       = Inl ValueError"
proof -
  have n: "class_names (MetricsCalculator_init None) = CLASS_NAMES"
    by (simp add: MetricsCalculator_init_def)
  have a: "auc_metrics few_classes_sklearn (MetricsCalculator_init None) [4, 5] few_classes_probs
       = Inl ValueError"
    by (simp add: auc_metrics_def few_classes_sklearn_def)
  have acc: "np_mean_equal [4, 5] [4, 5] = Inr (Fin 1)"
    by (simp add: np_mean_equal_def)
  have b: "balanced_accuracy_score few_classes_sklearn [4, 5] [4, 5] = Inr (Fin 1.0)"
    by (simp add: few_classes_sklearn_def)
  have r: "classification_report few_classes_sklearn [4, 5] [4, 5]
             (class_names (MetricsCalculator_init None)) = Inl ValueError"
    by (simp add: few_classes_sklearn_def)
  have s: "standard_metrics few_classes_sklearn (MetricsCalculator_init None) [4, 5] [4, 5]
             = Inl ValueError"
    unfolding standard_metrics_def by (simp only: acc b r sum.case)
  have c: "compute few_classes_sklearn (MetricsCalculator_init None) [4, 5] [4, 5]
             few_classes_probs = Inl ValueError"
    unfolding compute_def by (simp only: s sum.case)
  from n a c show ?thesis by (intro conjI)
qed

lemma one_class_accuracy: "np_mean_equal [0, 1] [0, 0] = Inr (Fin 0.5)"
  by (simp add: np_mean_equal_def)

lemma one_class_macro_avg:
  "getitem one_class_report ''macro avg''
     = Inr [''precision'' \<mapsto> Fin 0.5, ''recall'' \<mapsto> Fin 0.25, ''f1-score'' \<mapsto> Fin (1 / 3)]"
  by (simp add: getitem_def one_class_report_def)

lemma one_class_weighted_avg:
  "getitem one_class_report ''weighted avg''
     = Inr [''precision'' \<mapsto> Fin 1, ''recall'' \<mapsto> Fin 0.5, ''f1-score'' \<mapsto> Fin (2 / 3)]"
  by (simp add: getitem_def one_class_report_def)

lemma one_class_per_class_f1:
  "\<exists>m'. per_class_f1 one_class_report [''mel'', ''nv''] m = Inr m'
        \<and> m' ''accuracy'' = m ''accuracy''"
  by (simp add: getitem_def one_class_report_def)

lemma two_class_names: "class_names two_class_calculator = [''mel'', ''nv'']"
  by (simp add: two_class_calculator_def MetricsCalculator_init_def)

lemma one_class_sklearn_calls:
  "balanced_accuracy_score one_class_sklearn ls ps = Inr (Fin 0.5)"
  "classification_report one_class_sklearn ls ps ns = Inr one_class_report"
  by (simp_all add: one_class_sklearn_def)

lemma one_class_standard_metrics:
  "\<exists>m. standard_metrics one_class_sklearn two_class_calculator [0, 1] [0, 0] = Inr m
       \<and> m ''accuracy'' = Some (Fin 0.5)"
proof -
  let ?m0 = "[''accuracy'' \<mapsto> Fin 0.5, ''balanced_accuracy'' \<mapsto> Fin 0.5,
              ''f1_macro'' \<mapsto> Fin (1 / 3), ''f1_weighted'' \<mapsto> Fin (2 / 3)]"
  from one_class_per_class_f1 [of ?m0] obtain m' where
    m': "per_class_f1 one_class_report [''mel'', ''nv''] ?m0 = Inr m'"
    and a: "m' ''accuracy'' = ?m0 ''accuracy''"
    by blast
  have g3: "getitem [''precision'' \<mapsto> Fin 0.5, ''recall'' \<mapsto> Fin 0.25,
                     ''f1-score'' \<mapsto> Fin (1 / 3)] ''f1-score'' = Inr (Fin (1 / 3))"
    by (simp add: getitem_def)
  have g4: "getitem [''precision'' \<mapsto> Fin 1, ''recall'' \<mapsto> Fin 0.5,
                     ''f1-score'' \<mapsto> Fin (2 / 3)] ''f1-score'' = Inr (Fin (2 / 3))"
    by (simp add: getitem_def)
  have e: "standard_metrics one_class_sklearn two_class_calculator [0, 1] [0, 0]
    = (let mel_report = get_or one_class_report ''mel'' Map.empty
       in Inr (m'(''mel_sensitivity'' \<mapsto> get_or mel_report ''recall'' (Fin 0.0),
                  ''mel_precision'' \<mapsto> get_or mel_report ''precision'' (Fin 0.0),
                  ''mel_f1'' \<mapsto> get_or mel_report ''f1-score'' (Fin 0.0))))"
    unfolding standard_metrics_def
    by (simp only: one_class_accuracy one_class_sklearn_calls two_class_names
        one_class_macro_avg one_class_weighted_avg g3 g4 m' sum.case)
  have "?m0 ''accuracy'' = Some (Fin 0.5)" by simp
  with a have "m' ''accuracy'' = Some (Fin 0.5)" by simp
  then show ?thesis
    unfolding e by (simp add: Let_def)
qed

theorem auc_failure_defaults_to_zero_witness:
  "(\<exists>m. standard_metrics one_class_sklearn two_class_calculator [0, 1] [0, 0] = Inr m)
   \<and> auc_metrics one_class_sklearn two_class_calculator [0, 0] [[0.9, 0.1], [0.4, 0.6]]
       = Inl ValueError
   \<and> (\<exists>lg metrics.
         compute one_class_sklearn two_class_calculator [0, 1] [0, 0] [[0.9, 0.1], [0.4, 0.6]]
           = Inr (lg, metrics)
         \<and> metrics ''auc_roc_macro'' = Some (Fin 0.0)
         \<and> metrics ''auc_roc_melanoma'' = Some (Fin 0.0)
         \<and> metrics ''accuracy'' = Some (Fin 0.5))"
proof -
  from one_class_standard_metrics obtain m where
    m: "standard_metrics one_class_sklearn two_class_calculator [0, 1] [0, 0] = Inr m"
    and acc: "m ''accuracy'' = Some (Fin 0.5)"
    by blast
  have a: "auc_metrics one_class_sklearn two_class_calculator [0, 0] [[0.9, 0.1], [0.4, 0.6]]
       = Inl ValueError"
    by (simp add: auc_metrics_def one_class_sklearn_def)
  from auc_failure_defaults_to_zero [OF m a] obtain lg metrics where
    all: "compute one_class_sklearn two_class_calculator [0, 1] [0, 0] [[0.9, 0.1], [0.4, 0.6]]
           = Inr (lg, metrics)
         \<and> metrics ''auc_roc_macro'' = Some (Fin 0.0)
         \<and> metrics ''auc_roc_melanoma'' = Some (Fin 0.0)
         \<and> (\<forall>k. k \<noteq> ''auc_roc_macro'' \<and> k \<noteq> ''auc_roc_melanoma'' \<longrightarrow> metrics k = m k)
         \<and> {''accuracy'', ''balanced_accuracy'', ''f1_macro'', ''f1_weighted'',
             ''mel_sensitivity'', ''mel_precision'', ''mel_f1''} \<subseteq> dom metrics"
    by (elim exE) (rule that)
  from all have c: "compute one_class_sklearn two_class_calculator [0, 1] [0, 0]
                      [[0.9, 0.1], [0.4, 0.6]] = Inr (lg, metrics)"
    by (rule conjunct1)
  from all have z1: "metrics ''auc_roc_macro'' = Some (Fin 0.0)"
    by (elim conjE)
  from all have z2: "metrics ''auc_roc_melanoma'' = Some (Fin 0.0)"
    by (elim conjE)
  from all have k: "\<forall>k. k \<noteq> ''auc_roc_macro'' \<and> k \<noteq> ''auc_roc_melanoma'' \<longrightarrow> metrics k = m k"
    by (elim conjE)
  have "''accuracy'' \<noteq> ''auc_roc_macro'' \<and> ''accuracy'' \<noteq> ''auc_roc_melanoma''" by simp
  with k have "metrics ''accuracy'' = m ''accuracy''" by (elim allE impE) assumption+
  with acc have r: "metrics ''accuracy'' = Some (Fin 0.5)" by simp
  have 1: "\<exists>m. standard_metrics one_class_sklearn two_class_calculator [0, 1] [0, 0] = Inr m"
    by (rule exI [of _ m]) (rule m)
  have 3: "\<exists>lg metrics.
         compute one_class_sklearn two_class_calculator [0, 1] [0, 0] [[0.9, 0.1], [0.4, 0.6]]
           = Inr (lg, metrics)
         \<and> metrics ''auc_roc_macro'' = Some (Fin 0.0)
         \<and> metrics ''auc_roc_melanoma'' = Some (Fin 0.0)
         \<and> metrics ''accuracy'' = Some (Fin 0.5)"
    by (rule exI [of _ lg], rule exI [of _ metrics], intro conjI) (rule c z1 z2 r)+
  from 1 a 3 show ?thesis by (intro conjI)
qed

end
